theory Spec2Isabelle
  imports Complex_Main
begin

section \<open>Model statistics of a block-structured optimisation model\<close>

text \<open>
  A shallow embedding of \<^verbatim>\<open>idaes/core/util/model_statistics.py\<close>.

  Python objects are compared by identity, and every \<^verbatim>\<open>ComponentSet\<close> is keyed by
  identity. An object is therefore an address, and what the code reads from it
  (\<^verbatim>\<open>fixed\<close>, \<^verbatim>\<open>value\<close>, \<^verbatim>\<open>active\<close>, the bounds, ...) is looked up in a store. The
  blocks form the ownership tree; a block lists the addresses of the components declared
  on it. Python floats are read as real numbers (no rounding).
\<close>

subsection \<open>Components\<close>

type_synonym addr = nat

text \<open>A variable: \<^verbatim>\<open>v.fixed\<close>, \<^verbatim>\<open>v.value\<close>, \<^verbatim>\<open>v.lb\<close>, \<^verbatim>\<open>v.ub\<close>.\<close>

record VarData =
  fixed :: bool
  var_value :: "real option"
  lb :: "real option"
  ub :: "real option"

text \<open>The exceptions an evaluation can raise.\<close>

datatype pyexc =
  AttributeError | TypeError | ValueError | ZeroDivisionError | OverflowError | PyomoException

text \<open>
  A bound of a constraint is an expression: a numeric constant, or an expression that is
  not constant (it holds a mutable parameter), kept with its current value.
\<close>

datatype bound = NumericConstant real | MutableExpression real

text \<open>
  A constraint: \<^verbatim>\<open>c.active\<close>, the bounds \<^verbatim>\<open>c.lower\<close> and \<^verbatim>\<open>c.upper\<close> (expressions, or
  \<^verbatim>\<open>None\<close>), the outcome of the call \<^verbatim>\<open>c.body()\<close> at the current variable values (a
  number, or the exception it raises), and \<^verbatim>\<open>identify_variables(c.body)\<close>.
\<close>

record ConstraintData =
  con_active :: bool
  lower :: "bound option"
  upper :: "bound option"
  body :: "pyexc + real"
  body_vars :: "addr list"

text \<open>
  A grey-box block: \<^verbatim>\<open>g.active\<close>, the variables of the name-keyed maps \<^verbatim>\<open>g.inputs\<close> and
  \<^verbatim>\<open>g.outputs\<close> (one per name, in key order), and
  \<^verbatim>\<open>g.get_external_model().n_equality_constraints()\<close>.
\<close>

record GreyBoxData =
  gb_active :: bool
  inputs :: "addr list"
  outputs :: "addr list"
  n_equality_constraints :: int

text \<open>The store: what each address holds, by kind of component.\<close>

record store =
  var_heap :: "addr \<Rightarrow> VarData"
  con_heap :: "addr \<Rightarrow> ConstraintData"
  obj_active :: "addr \<Rightarrow> bool"
  gb_heap :: "addr \<Rightarrow> GreyBoxData"

text \<open>
  A block: its identity, its own \<^verbatim>\<open>active\<close> flag, the variables, constraints, objectives
  and grey-box blocks declared on it, and its sub-blocks.
\<close>

datatype BlockData = BlockData
  (block_id: addr) (block_active: bool)
  (block_vars: "addr list") (block_constraints: "addr list")
  (block_objectives: "addr list") (block_greyboxes: "addr list")
  (sub_blocks: "BlockData list")

text \<open>
  The argument \<^verbatim>\<open>block\<close> of every query: a single block, or an indexed block (a
  container with an identity and an \<^verbatim>\<open>active\<close> flag of its own, and its members
  \<^verbatim>\<open>block.values()\<close>).
\<close>

datatype block = ScalarBlock BlockData | IndexedBlock addr bool "BlockData list"

fun active :: "block \<Rightarrow> bool" where
  "active (ScalarBlock b) = block_active b"
| "active (IndexedBlock i a bs) = a"

fun ident :: "block \<Rightarrow> addr" where
  "ident (ScalarBlock b) = block_id b"
| "ident (IndexedBlock i a bs) = i"

text \<open>The blocks a query starts from: the block itself, or the members of an indexed block.\<close>

fun block_datas :: "block \<Rightarrow> BlockData list" where
  "block_datas (ScalarBlock b) = [b]"
| "block_datas (IndexedBlock i a bs) = bs"

subsection \<open>The tree walker\<close>

text \<open>
  Modelled from the spec: the Tree Walker of section 4.1, which the repository calls as
  \<^verbatim>\<open>component_data_objects(ctype, active, descend_into)\<close> and does not define. A
  component type, as the walker uses it, gives the components of that type declared on a
  block and reads the \<^verbatim>\<open>active\<close> flag of one. A variable has no flag of its own and
  counts as active. The walker does not enter a grey-box block.
\<close>

record 'a ctype =
  members :: "BlockData \<Rightarrow> 'a list"
  is_active :: "store \<Rightarrow> 'a \<Rightarrow> bool"

definition Var :: "addr ctype" where
  "Var = \<lparr>members = block_vars, is_active = (\<lambda>h v. True)\<rparr>"

definition Constraint :: "addr ctype" where
  "Constraint = \<lparr>members = block_constraints, is_active = (\<lambda>h c. con_active (con_heap h c))\<rparr>"

definition Objective :: "addr ctype" where
  "Objective = \<lparr>members = block_objectives, is_active = (\<lambda>h ob. obj_active h ob)\<rparr>"

definition ExternalGreyBoxBlock :: "addr ctype" where
  "ExternalGreyBoxBlock =
     \<lparr>members = block_greyboxes, is_active = (\<lambda>h g. gb_active (gb_heap h g))\<rparr>"

definition Block :: "BlockData ctype" where
  "Block = \<lparr>members = sub_blocks, is_active = (\<lambda>h b. block_active b)\<rparr>"

text \<open>
  Modelled from the spec: the two modes of the walker. \<^verbatim>\<open>active=None\<close> is the total mode,
  in which every flag passes; \<^verbatim>\<open>active=True\<close> is the activated mode, in which only a flag
  that is set passes.
\<close>

definition passes :: "bool option \<Rightarrow> bool \<Rightarrow> bool" where
  "passes act flag = (case act of None \<Rightarrow> True | Some a \<Rightarrow> flag = a)"

text \<open>
  Modelled from the spec: the blocks a descending walk visits, parent first. In the total
  mode every sub-block is entered; in the activated mode a block that is not active is
  not visited, and nothing below it is.
\<close>

fun tree_iterator :: "bool option \<Rightarrow> BlockData \<Rightarrow> BlockData list" where
  "tree_iterator act (BlockData i a vs cs os gs bs) =
     (if passes act a
      then BlockData i a vs cs os gs bs # concat (map (tree_iterator act) bs)
      else [])"

text \<open>
  Modelled from the spec: the blocks a walk visits; without \<^verbatim>\<open>descend_into\<close>, the block
  alone.
\<close>

definition block_data_objects :: "bool option \<Rightarrow> bool \<Rightarrow> BlockData \<Rightarrow> BlockData list" where
  "block_data_objects act descend_into b =
     (if \<not> passes act (block_active b) then []
      else if \<not> descend_into then [b]
      else tree_iterator act b)"

text \<open>
  Modelled from the spec: the components of the requested type that one block yields. In
  the total mode these are all it declares, in the activated mode those that are
  themselves active.
\<close>

definition component_data_itervalues ::
  "store \<Rightarrow> 'a ctype \<Rightarrow> bool option \<Rightarrow> BlockData \<Rightarrow> 'a list" where
  "component_data_itervalues h ct act b =
     filter (\<lambda>c. passes act (is_active ct h c)) (members ct b)"

text \<open>
  Modelled from the spec: \<^verbatim>\<open>component_data_objects\<close>, the components the visited blocks
  yield, block by block. A component declared or referenced in two places is yielded at
  each.
\<close>

definition component_data_objects ::
  "store \<Rightarrow> 'a ctype \<Rightarrow> bool option \<Rightarrow> bool \<Rightarrow> BlockData \<Rightarrow> 'a list" where
  "component_data_objects h ct act descend_into b =
     concat (map (component_data_itervalues h ct act) (block_data_objects act descend_into b))"

text \<open>
  \<^verbatim>\<open>_iter_indexed_block_data_objects\<close>: an indexed block is walked member by member.
\<close>

fun iter_indexed_block_data_objects ::
  "store \<Rightarrow> block \<Rightarrow> 'a ctype \<Rightarrow> bool option \<Rightarrow> bool \<Rightarrow> 'a list" where
  "iter_indexed_block_data_objects h (IndexedBlock i a bs) ct act descend_into =
     concat (map (component_data_objects h ct act descend_into) bs)"
| "iter_indexed_block_data_objects h (ScalarBlock b) ct act descend_into =
     component_data_objects h ct act descend_into b"

subsection \<open>ComponentSet\<close>

text \<open>
  A \<^verbatim>\<open>ComponentSet\<close> is kept as the list of its members' addresses in insertion order,
  without repetition. \<^verbatim>\<open>s.add(x)\<close>, \<^verbatim>\<open>ComponentSet(iterable)\<close>, \<^verbatim>\<open>s - t\<close> and
  \<^verbatim>\<open>len(s)\<close>:
\<close>

definition ComponentSet_add :: "'a list \<Rightarrow> 'a \<Rightarrow> 'a list" where
  "ComponentSet_add s x = (if x \<in> set s then s else s @ [x])"

definition ComponentSet :: "'a list \<Rightarrow> 'a list" where
  "ComponentSet xs = foldl ComponentSet_add [] xs"

definition difference :: "'a list \<Rightarrow> 'a list \<Rightarrow> 'a list" where
  "difference s t = filter (\<lambda>x. x \<notin> set t) s"

definition len :: "'a list \<Rightarrow> int" where
  "len s = int (length s)"

subsection \<open>Common sub-methods\<close>

text \<open>
  \<^verbatim>\<open>activated_block_component_generator\<close>: the local components of \<^verbatim>\<open>block\<close> first,
  then those of every sub-block the activated walk reaches; the components' own flags
  are not looked at.
\<close>

definition activated_block_component_generator :: "store \<Rightarrow> block \<Rightarrow> 'a ctype \<Rightarrow> 'a list" where
  "activated_block_component_generator h blk ct =
     iter_indexed_block_data_objects h blk ct None False @
     concat (map (component_data_objects h ct None False)
       (iter_indexed_block_data_objects h blk Block (Some True) True))"

subsection \<open>Block methods\<close>

definition total_blocks_set :: "store \<Rightarrow> block \<Rightarrow> addr list" where
  "total_blocks_set h blk =
     ComponentSet_add
       (ComponentSet (map block_id (iter_indexed_block_data_objects h blk Block None True)))
       (ident blk)"

definition number_total_blocks :: "store \<Rightarrow> block \<Rightarrow> int" where
  "number_total_blocks h blk =
     int (length (iter_indexed_block_data_objects h blk Block None True)) + 1"

definition activated_blocks_set :: "store \<Rightarrow> block \<Rightarrow> addr list" where
  "activated_blocks_set h blk =
     (if active blk
      then foldl ComponentSet_add (ComponentSet_add [] (ident blk))
             (map block_id (iter_indexed_block_data_objects h blk Block (Some True) True))
      else [])"

definition number_activated_blocks :: "store \<Rightarrow> block \<Rightarrow> int" where
  "number_activated_blocks h blk =
     (if active blk
      then 1 + int (length (iter_indexed_block_data_objects h blk Block (Some True) True))
      else 0)"

definition deactivated_blocks_set :: "store \<Rightarrow> block \<Rightarrow> addr list" where
  "deactivated_blocks_set h blk = difference (total_blocks_set h blk) (activated_blocks_set h blk)"

definition number_deactivated_blocks :: "store \<Rightarrow> block \<Rightarrow> int" where
  "number_deactivated_blocks h blk = number_total_blocks h blk - number_activated_blocks h blk"

subsection \<open>Grey-box blocks\<close>

definition greybox_block_set :: "store \<Rightarrow> block \<Rightarrow> addr list" where
  "greybox_block_set h blk =
     ComponentSet (activated_block_component_generator h blk ExternalGreyBoxBlock)"

definition activated_greybox_block_set :: "store \<Rightarrow> block \<Rightarrow> addr list" where
  "activated_greybox_block_set h blk =
     ComponentSet (filter (\<lambda>g. gb_active (gb_heap h g)) (greybox_block_set h blk))"

definition deactivated_greybox_block_set :: "store \<Rightarrow> block \<Rightarrow> addr list" where
  "deactivated_greybox_block_set h blk =
     difference (greybox_block_set h blk) (activated_greybox_block_set h blk)"

definition number_deactivated_greybox_block :: "store \<Rightarrow> block \<Rightarrow> int" where
  "number_deactivated_greybox_block h blk = len (deactivated_greybox_block_set h blk)"

definition number_greybox_blocks :: "store \<Rightarrow> block \<Rightarrow> int" where
  "number_greybox_blocks h blk = len (greybox_block_set h blk)"

definition number_activated_greybox_blocks :: "store \<Rightarrow> block \<Rightarrow> int" where
  "number_activated_greybox_blocks h blk = len (activated_greybox_block_set h blk)"

text \<open>Every grey-box block of the set adds \<^verbatim>\<open>len(outputs)\<close> and its own equality count.\<close>

definition greybox_equalities :: "store \<Rightarrow> addr \<Rightarrow> int" where
  "greybox_equalities h g =
     len (outputs (gb_heap h g)) + n_equality_constraints (gb_heap h g)"

definition number_activated_greybox_equalities :: "store \<Rightarrow> block \<Rightarrow> int" where
  "number_activated_greybox_equalities h blk =
     foldl (\<lambda>equalities g. equalities + greybox_equalities h g) 0
       (activated_greybox_block_set h blk)"

definition number_deactivated_greybox_equalities :: "store \<Rightarrow> block \<Rightarrow> int" where
  "number_deactivated_greybox_equalities h blk =
     foldl (\<lambda>equalities g. equalities + greybox_equalities h g) 0
       (deactivated_greybox_block_set h blk)"

definition greybox_variables :: "store \<Rightarrow> block \<Rightarrow> addr list" where
  "greybox_variables h blk =
     ComponentSet (concat (map (\<lambda>g. inputs (gb_heap h g) @ outputs (gb_heap h g))
       (activated_greybox_block_set h blk)))"

definition unfixed_greybox_variables :: "store \<Rightarrow> block \<Rightarrow> addr list" where
  "unfixed_greybox_variables h blk =
     ComponentSet (filter (\<lambda>v. \<not> fixed (var_heap h v)) (greybox_variables h blk))"

subsection \<open>Basic constraint methods\<close>

definition total_constraints_set :: "store \<Rightarrow> block \<Rightarrow> addr list" where
  "total_constraints_set h blk =
     ComponentSet (activated_block_component_generator h blk Constraint)"

definition number_total_constraints :: "store \<Rightarrow> block \<Rightarrow> int" where
  "number_total_constraints h blk =
     int (length (activated_block_component_generator h blk Constraint)) +
     number_activated_greybox_equalities h blk"

definition activated_constraints_generator :: "store \<Rightarrow> block \<Rightarrow> addr list" where
  "activated_constraints_generator h blk =
     filter (\<lambda>c. con_active (con_heap h c)) (activated_block_component_generator h blk Constraint)"

definition activated_constraints_set :: "store \<Rightarrow> block \<Rightarrow> addr list" where
  "activated_constraints_set h blk = ComponentSet (activated_constraints_generator h blk)"

definition number_activated_constraints :: "store \<Rightarrow> block \<Rightarrow> int" where
  "number_activated_constraints h blk = int (length (activated_constraints_generator h blk))"

definition deactivated_constraints_generator :: "store \<Rightarrow> block \<Rightarrow> addr list" where
  "deactivated_constraints_generator h blk =
     filter (\<lambda>c. \<not> con_active (con_heap h c))
       (activated_block_component_generator h blk Constraint)"

definition deactivated_constraints_set :: "store \<Rightarrow> block \<Rightarrow> addr list" where
  "deactivated_constraints_set h blk = ComponentSet (deactivated_constraints_generator h blk)"

definition number_deactivated_constraints :: "store \<Rightarrow> block \<Rightarrow> int" where
  "number_deactivated_constraints h blk =
     int (length (deactivated_constraints_generator h blk)) +
     number_deactivated_greybox_equalities h blk"

subsection \<open>Equality constraints\<close>

text \<open>\<^verbatim>\<open>value(x)\<close> of a number that is set, and of a bound that is set.\<close>

definition "value" :: "real option \<Rightarrow> real" where
  "value b = the b"

definition bound_value :: "bound option \<Rightarrow> real" where
  "bound_value b = (case the b of NumericConstant r \<Rightarrow> r | MutableExpression r \<Rightarrow> r)"

text \<open>
  \<^verbatim>\<open>c.upper == c.lower\<close> compares the bounds themselves. On two constants it is the
  comparison of their numbers. Once a bound is not constant it is a relational expression,
  and the \<^verbatim>\<open>and\<close> that takes its truth value raises.
\<close>

fun bounds_equal :: "bound \<Rightarrow> bound \<Rightarrow> pyexc + bool" where
  "bounds_equal (NumericConstant u) (NumericConstant l) = Inr (u = l)"
| "bounds_equal (NumericConstant u) (MutableExpression l) = Inl PyomoException"
| "bounds_equal (MutableExpression u) l = Inl PyomoException"

text \<open>
  The test of \<^verbatim>\<open>total_equalities_generator\<close>:
  \<^verbatim>\<open>c.upper is not None and c.lower is not None and c.upper == c.lower\<close>.
\<close>

definition total_equality_test :: "ConstraintData \<Rightarrow> pyexc + bool" where
  "total_equality_test c =
     (if upper c \<noteq> None \<and> lower c \<noteq> None then bounds_equal (the (upper c)) (the (lower c))
      else Inr False)"

text \<open>
  A generator that keeps the elements passing a test that may raise; what the test raises
  reaches whoever consumes the generator.
\<close>

fun yield_if :: "('a \<Rightarrow> pyexc + bool) \<Rightarrow> 'a list \<Rightarrow> pyexc + 'a list" where
  "yield_if test [] = Inr []"
| "yield_if test (c # cs) =
     (case test c of
        Inl e \<Rightarrow> Inl e
      | Inr t \<Rightarrow>
          (case yield_if test cs of
             Inl e \<Rightarrow> Inl e
           | Inr ys \<Rightarrow> Inr (if t then c # ys else ys)))"

definition total_equalities_generator :: "store \<Rightarrow> block \<Rightarrow> pyexc + addr list" where
  "total_equalities_generator h blk =
     yield_if (\<lambda>c. total_equality_test (con_heap h c))
       (activated_block_component_generator h blk Constraint)"

definition total_equalities_set :: "store \<Rightarrow> block \<Rightarrow> pyexc + addr list" where
  "total_equalities_set h blk =
     (case total_equalities_generator h blk of
        Inl e \<Rightarrow> Inl e
      | Inr cs \<Rightarrow> Inr (ComponentSet cs))"


definition activated_equalities_generator :: "store \<Rightarrow> block \<Rightarrow> addr list" where
  "activated_equalities_generator h blk =
     filter (\<lambda>c. upper (con_heap h c) \<noteq> None \<and> lower (con_heap h c) \<noteq> None \<and>
                 bound_value (upper (con_heap h c)) = bound_value (lower (con_heap h c)))
       (iter_indexed_block_data_objects h blk Constraint (Some True) True)"

definition activated_equalities_set :: "store \<Rightarrow> block \<Rightarrow> addr list" where
  "activated_equalities_set h blk = ComponentSet (activated_equalities_generator h blk)"


definition deactivated_equalities_generator :: "store \<Rightarrow> block \<Rightarrow> pyexc + addr list" where
  "deactivated_equalities_generator h blk =
     (case total_equalities_generator h blk of
        Inl e \<Rightarrow> Inl e
      | Inr cs \<Rightarrow> Inr (filter (\<lambda>c. \<not> con_active (con_heap h c)) cs))"

definition deactivated_equalities_set :: "store \<Rightarrow> block \<Rightarrow> pyexc + addr list" where
  "deactivated_equalities_set h blk =
     (case deactivated_equalities_generator h blk of
        Inl e \<Rightarrow> Inl e
      | Inr cs \<Rightarrow> Inr (ComponentSet cs))"

definition number_deactivated_equalities :: "store \<Rightarrow> block \<Rightarrow> pyexc + int" where
  "number_deactivated_equalities h blk =
     (case deactivated_equalities_generator h blk of
        Inl e \<Rightarrow> Inl e
      | Inr cs \<Rightarrow> Inr (int (length cs) + number_deactivated_greybox_equalities h blk))"

subsection \<open>Inequality constraints\<close>

definition total_inequalities_generator :: "store \<Rightarrow> block \<Rightarrow> addr list" where
  "total_inequalities_generator h blk =
     filter (\<lambda>c. upper (con_heap h c) = None \<or> lower (con_heap h c) = None)
       (activated_block_component_generator h blk Constraint)"

definition total_inequalities_set :: "store \<Rightarrow> block \<Rightarrow> addr list" where
  "total_inequalities_set h blk = ComponentSet (total_inequalities_generator h blk)"


definition activated_inequalities_generator :: "store \<Rightarrow> block \<Rightarrow> addr list" where
  "activated_inequalities_generator h blk =
     filter (\<lambda>c. upper (con_heap h c) = None \<or> lower (con_heap h c) = None)
       (iter_indexed_block_data_objects h blk Constraint (Some True) True)"

definition activated_inequalities_set :: "store \<Rightarrow> block \<Rightarrow> addr list" where
  "activated_inequalities_set h blk = ComponentSet (activated_inequalities_generator h blk)"


definition deactivated_inequalities_generator :: "store \<Rightarrow> block \<Rightarrow> addr list" where
  "deactivated_inequalities_generator h blk =
     filter (\<lambda>c. \<not> con_active (con_heap h c)) (total_inequalities_generator h blk)"

definition deactivated_inequalities_set :: "store \<Rightarrow> block \<Rightarrow> addr list" where
  "deactivated_inequalities_set h blk = ComponentSet (deactivated_inequalities_generator h blk)"


subsection \<open>Basic variable methods\<close>

definition variables_set :: "store \<Rightarrow> block \<Rightarrow> addr list" where
  "variables_set h blk =
     ComponentSet (iter_indexed_block_data_objects h blk Var (Some True) True @
                   greybox_variables h blk)"

definition number_variables :: "store \<Rightarrow> block \<Rightarrow> int" where
  "number_variables h blk = len (variables_set h blk)"

definition fixed_variables_generator :: "store \<Rightarrow> block \<Rightarrow> addr list" where
  "fixed_variables_generator h blk =
     filter (\<lambda>v. fixed (var_heap h v)) (iter_indexed_block_data_objects h blk Var (Some True) True) @
     filter (\<lambda>v. fixed (var_heap h v)) (greybox_variables h blk)"

definition fixed_variables_set :: "store \<Rightarrow> block \<Rightarrow> addr list" where
  "fixed_variables_set h blk = ComponentSet (fixed_variables_generator h blk)"

definition number_fixed_variables :: "store \<Rightarrow> block \<Rightarrow> int" where
  "number_fixed_variables h blk = len (fixed_variables_set h blk)"

definition unfixed_variables_generator :: "store \<Rightarrow> block \<Rightarrow> addr list" where
  "unfixed_variables_generator h blk =
     filter (\<lambda>v. \<not> fixed (var_heap h v))
       (iter_indexed_block_data_objects h blk Var (Some True) True)"

definition unfixed_variables_set :: "store \<Rightarrow> block \<Rightarrow> addr list" where
  "unfixed_variables_set h blk = ComponentSet (unfixed_variables_generator h blk)"

definition number_unfixed_variables :: "store \<Rightarrow> block \<Rightarrow> int" where
  "number_unfixed_variables h blk = len (unfixed_variables_set h blk)"

subsection \<open>Variables near their bounds\<close>

text \<open>
  The deprecated arguments \<^verbatim>\<open>tol\<close> and \<^verbatim>\<open>relative\<close> only log a warning, and a given
  \<^verbatim>\<open>tol\<close> replaces both tolerances. The body of the loop, for one variable: nothing is
  yielded when the variable has no value; otherwise the magnitude, the tolerance, and the
  \<^verbatim>\<open>if\<close>/\<^verbatim>\<open>elif\<close> on the two bounds.
\<close>

definition magnitude :: "VarData \<Rightarrow> real" where
  "magnitude v =
     (if ub v \<noteq> None \<and> lb v \<noteq> None then value (ub v) - value (lb v)
      else if ub v \<noteq> None then \<bar>value (ub v)\<bar>
      else if lb v \<noteq> None then \<bar>value (lb v)\<bar>
      else 0)"

definition near_bounds :: "bool \<Rightarrow> bool \<Rightarrow> real \<Rightarrow> real \<Rightarrow> VarData \<Rightarrow> bool" where
  "near_bounds skip_lb skip_ub abs_tol rel_tol v =
     (if var_value v = None then False
      else let mag = magnitude v;
               tol = max abs_tol (mag * rel_tol)
           in if ub v \<noteq> None \<and> \<not> skip_ub \<and> value (ub v) - value (var_value v) \<le> tol then True
              else if lb v \<noteq> None \<and> \<not> skip_lb \<and> value (var_value v) - value (lb v) \<le> tol
                   then True
              else False)"

definition variables_near_bounds_generator ::
  "store \<Rightarrow> block \<Rightarrow> real option \<Rightarrow> bool option \<Rightarrow> bool \<Rightarrow> bool \<Rightarrow> real \<Rightarrow> real \<Rightarrow> addr list" where
  "variables_near_bounds_generator h blk tol relative skip_lb skip_ub abs_tol rel_tol =
     (let abs_tol' = (case tol of None \<Rightarrow> abs_tol | Some t \<Rightarrow> t);
          rel_tol' = (case tol of None \<Rightarrow> rel_tol | Some t \<Rightarrow> t)
      in filter (\<lambda>v. near_bounds skip_lb skip_ub abs_tol' rel_tol' (var_heap h v))
           (iter_indexed_block_data_objects h blk Var (Some True) True))"

definition variables_near_bounds_set ::
  "store \<Rightarrow> block \<Rightarrow> real option \<Rightarrow> bool option \<Rightarrow> bool \<Rightarrow> bool \<Rightarrow> real \<Rightarrow> real \<Rightarrow> addr list" where
  "variables_near_bounds_set h blk tol relative skip_lb skip_ub abs_tol rel_tol =
     ComponentSet
       (variables_near_bounds_generator h blk tol relative skip_lb skip_ub abs_tol rel_tol)"

definition number_variables_near_bounds ::
  "store \<Rightarrow> block \<Rightarrow> real option \<Rightarrow> real \<Rightarrow> real \<Rightarrow> int" where
  "number_variables_near_bounds h blk tol abs_tol rel_tol =
     len (variables_near_bounds_set h blk tol None False False abs_tol rel_tol)"



subsection \<open>Variables in constraints\<close>

definition variables_in_activated_constraints_set :: "store \<Rightarrow> block \<Rightarrow> addr list" where
  "variables_in_activated_constraints_set h blk =
     ComponentSet
       (concat (map (\<lambda>c. body_vars (con_heap h c))
          (iter_indexed_block_data_objects h blk Constraint (Some True) True)) @
        greybox_variables h blk)"

definition number_variables_in_activated_constraints :: "store \<Rightarrow> block \<Rightarrow> int" where
  "number_variables_in_activated_constraints h blk =
     len (variables_in_activated_constraints_set h blk)"

definition variables_in_activated_equalities_set :: "store \<Rightarrow> block \<Rightarrow> addr list" where
  "variables_in_activated_equalities_set h blk =
     ComponentSet
       (concat (map (\<lambda>c. body_vars (con_heap h c)) (activated_equalities_generator h blk)) @
        greybox_variables h blk)"

definition number_variables_in_activated_equalities :: "store \<Rightarrow> block \<Rightarrow> int" where
  "number_variables_in_activated_equalities h blk =
     len (variables_in_activated_equalities_set h blk)"

definition unfixed_variables_in_activated_equalities_set :: "store \<Rightarrow> block \<Rightarrow> addr list" where
  "unfixed_variables_in_activated_equalities_set h blk =
     ComponentSet (filter (\<lambda>v. \<not> fixed (var_heap h v))
       (variables_in_activated_equalities_set h blk))"

definition number_unfixed_variables_in_activated_equalities :: "store \<Rightarrow> block \<Rightarrow> int" where
  "number_unfixed_variables_in_activated_equalities h blk =
     len (unfixed_variables_in_activated_equalities_set h blk)"

definition variables_not_in_activated_constraints_set :: "store \<Rightarrow> block \<Rightarrow> addr list" where
  "variables_not_in_activated_constraints_set h blk =
     (let active_vars = variables_in_activated_constraints_set h blk
      in ComponentSet (filter (\<lambda>v. v \<notin> set active_vars)
           (iter_indexed_block_data_objects h blk Var (Some True) True)))"

definition number_variables_not_in_activated_constraints :: "store \<Rightarrow> block \<Rightarrow> int" where
  "number_variables_not_in_activated_constraints h blk =
     len (variables_not_in_activated_constraints_set h blk)"

definition variables_in_activated_inequalities_set :: "store \<Rightarrow> block \<Rightarrow> addr list" where
  "variables_in_activated_inequalities_set h blk =
     ComponentSet
       (concat (map (\<lambda>c. body_vars (con_heap h c)) (activated_inequalities_generator h blk)))"

definition number_variables_in_activated_inequalities :: "store \<Rightarrow> block \<Rightarrow> int" where
  "number_variables_in_activated_inequalities h blk =
     len (variables_in_activated_inequalities_set h blk)"

definition variables_only_in_inequalities :: "store \<Rightarrow> block \<Rightarrow> addr list" where
  "variables_only_in_inequalities h blk =
     difference (variables_in_activated_inequalities_set h blk)
       (variables_in_activated_equalities_set h blk)"

definition number_variables_only_in_inequalities :: "store \<Rightarrow> block \<Rightarrow> int" where
  "number_variables_only_in_inequalities h blk = len (variables_only_in_inequalities h blk)"

definition fixed_variables_in_activated_equalities_set :: "store \<Rightarrow> block \<Rightarrow> addr list" where
  "fixed_variables_in_activated_equalities_set h blk =
     ComponentSet (filter (\<lambda>v. fixed (var_heap h v))
       (variables_in_activated_equalities_set h blk))"

definition number_fixed_variables_in_activated_equalities :: "store \<Rightarrow> block \<Rightarrow> int" where
  "number_fixed_variables_in_activated_equalities h blk =
     len (fixed_variables_in_activated_equalities_set h blk)"

definition number_of_unfixed_greybox_variables :: "store \<Rightarrow> block \<Rightarrow> int" where
  "number_of_unfixed_greybox_variables h blk = len (unfixed_greybox_variables h blk)"

definition number_of_greybox_variables :: "store \<Rightarrow> block \<Rightarrow> int" where
  "number_of_greybox_variables h blk = len (greybox_variables h blk)"

definition fixed_variables_only_in_inequalities :: "store \<Rightarrow> block \<Rightarrow> addr list" where
  "fixed_variables_only_in_inequalities h blk =
     ComponentSet (filter (\<lambda>v. fixed (var_heap h v)) (variables_only_in_inequalities h blk))"

definition number_fixed_variables_only_in_inequalities :: "store \<Rightarrow> block \<Rightarrow> int" where
  "number_fixed_variables_only_in_inequalities h blk =
     len (fixed_variables_only_in_inequalities h blk)"

subsection \<open>Unused variables\<close>

definition unused_variables_set :: "store \<Rightarrow> block \<Rightarrow> addr list" where
  "unused_variables_set h blk =
     difference (variables_set h blk) (variables_in_activated_constraints_set h blk)"

definition number_unused_variables :: "store \<Rightarrow> block \<Rightarrow> int" where
  "number_unused_variables h blk = len (unused_variables_set h blk)"

definition fixed_unused_variables_set :: "store \<Rightarrow> block \<Rightarrow> addr list" where
  "fixed_unused_variables_set h blk =
     ComponentSet (filter (\<lambda>v. fixed (var_heap h v)) (unused_variables_set h blk))"

definition number_fixed_unused_variables :: "store \<Rightarrow> block \<Rightarrow> int" where
  "number_fixed_unused_variables h blk = len (fixed_unused_variables_set h blk)"

subsection \<open>Objective methods\<close>

definition total_objectives_generator :: "store \<Rightarrow> block \<Rightarrow> addr list" where
  "total_objectives_generator h blk = activated_block_component_generator h blk Objective"

definition total_objectives_set :: "store \<Rightarrow> block \<Rightarrow> addr list" where
  "total_objectives_set h blk = ComponentSet (total_objectives_generator h blk)"

definition number_total_objectives :: "store \<Rightarrow> block \<Rightarrow> int" where
  "number_total_objectives h blk = int (length (total_objectives_generator h blk))"

definition activated_objectives_generator :: "store \<Rightarrow> block \<Rightarrow> addr list" where
  "activated_objectives_generator h blk =
     filter (\<lambda>ob. obj_active h ob) (activated_block_component_generator h blk Objective)"

definition activated_objectives_set :: "store \<Rightarrow> block \<Rightarrow> addr list" where
  "activated_objectives_set h blk = ComponentSet (activated_objectives_generator h blk)"

definition number_activated_objectives :: "store \<Rightarrow> block \<Rightarrow> int" where
  "number_activated_objectives h blk = int (length (activated_objectives_generator h blk))"

definition deactivated_objectives_generator :: "store \<Rightarrow> block \<Rightarrow> addr list" where
  "deactivated_objectives_generator h blk =
     filter (\<lambda>ob. \<not> obj_active h ob) (activated_block_component_generator h blk Objective)"

definition deactivated_objectives_set :: "store \<Rightarrow> block \<Rightarrow> addr list" where
  "deactivated_objectives_set h blk = ComponentSet (deactivated_objectives_generator h blk)"

definition number_deactivated_objectives :: "store \<Rightarrow> block \<Rightarrow> int" where
  "number_deactivated_objectives h blk = int (length (deactivated_objectives_generator h blk))"

subsection \<open>Degrees of freedom\<close>


subsection \<open>Large residuals\<close>

text \<open>
  The body of the \<^verbatim>\<open>try\<close>: the residual of one constraint. \<^verbatim>\<open>c.body()\<close> is only called
  for a bound that is set, and what it raises leaves the computation.
\<close>

definition residual :: "ConstraintData \<Rightarrow> pyexc + real" where
  "residual c =
     (case (if lower c = None then Inr 0
            else case body c of Inl e \<Rightarrow> Inl e | Inr y \<Rightarrow> Inr (bound_value (lower c) - y)) of
        Inl e \<Rightarrow> Inl e
      | Inr r_temp \<Rightarrow>
          let r = (if r_temp > 0 then r_temp else 0) in
          (case (if upper c = None then Inr 0
                 else case body c of Inl e \<Rightarrow> Inl e | Inr y \<Rightarrow> Inr (y - bound_value (upper c))) of
             Inl e \<Rightarrow> Inl e
           | Inr r_temp' \<Rightarrow> Inr (if r_temp' > r then r_temp' else r)))"

text \<open>The exceptions the \<^verbatim>\<open>except\<close> clause names.\<close>

definition caught :: "pyexc \<Rightarrow> bool" where
  "caught e = (e = AttributeError \<or> e = TypeError \<or> e = ValueError)"

text \<open>
  The state of the loop: the set, and the dictionary of residual values (written only
  when \<^verbatim>\<open>return_residual_values\<close> is set). An exception the clause does not name ends
  the call.
\<close>

type_synonym residuals = "addr list \<times> (addr \<rightharpoonup> real option)"

fun large_residuals_loop ::
  "store \<Rightarrow> real \<Rightarrow> bool \<Rightarrow> addr list \<Rightarrow> residuals \<Rightarrow> pyexc + residuals" where
  "large_residuals_loop h tol rrv [] st = Inr st"
| "large_residuals_loop h tol rrv (c # cs) (s, d) =
     (case residual (con_heap h c) of
        Inr r \<Rightarrow>
          if r > tol
          then large_residuals_loop h tol rrv cs
                 (ComponentSet_add s c, if rrv then d(c \<mapsto> Some r) else d)
          else large_residuals_loop h tol rrv cs (s, d)
      | Inl e \<Rightarrow>
          if caught e
          then large_residuals_loop h tol rrv cs
                 (ComponentSet_add s c, if rrv then d(c \<mapsto> None) else d)
          else Inl e)"

datatype large_residuals = LargeResidualsSet "addr list" | ResidualValues "addr \<rightharpoonup> real option"

definition large_residuals_set :: "store \<Rightarrow> block \<Rightarrow> real \<Rightarrow> bool \<Rightarrow> pyexc + large_residuals" where
  "large_residuals_set h blk tol return_residual_values =
     (case large_residuals_loop h tol return_residual_values
             (iter_indexed_block_data_objects h blk Constraint (Some True) True)
             ([], Map.empty) of
        Inl e \<Rightarrow> Inl e
      | Inr (s, d) \<Rightarrow>
          if return_residual_values then Inr (ResidualValues d) else Inr (LargeResidualsSet s))"

text \<open>
  \<^verbatim>\<open>number_large_residuals\<close> has no \<^verbatim>\<open>try\<close>. Both operands of a subtraction are
  evaluated before it, so an exception of \<^verbatim>\<open>c.body()\<close> comes first, and a bound that is
  \<^verbatim>\<open>None\<close> makes the subtraction a \<^verbatim>\<open>TypeError\<close>.
\<close>

definition lower_minus_body :: "ConstraintData \<Rightarrow> pyexc + real" where
  "lower_minus_body c =
     (case body c of
        Inl e \<Rightarrow> Inl e
      | Inr y \<Rightarrow>
          (case lower c of None \<Rightarrow> Inl TypeError | Some l \<Rightarrow> Inr (bound_value (lower c) - y)))"

definition body_minus_upper :: "ConstraintData \<Rightarrow> pyexc + real" where
  "body_minus_upper c =
     (case body c of
        Inl e \<Rightarrow> Inl e
      | Inr y \<Rightarrow>
          (case upper c of None \<Rightarrow> Inl TypeError | Some u \<Rightarrow> Inr (y - bound_value (upper c))))"

fun number_large_residuals_loop :: "store \<Rightarrow> real \<Rightarrow> addr list \<Rightarrow> int \<Rightarrow> pyexc + int" where
  "number_large_residuals_loop h tol [] lr = Inr lr"
| "number_large_residuals_loop h tol (c # cs) lr =
     (if \<not> con_active (con_heap h c) then number_large_residuals_loop h tol cs lr
      else case lower_minus_body (con_heap h c) of
        Inl e \<Rightarrow> Inl e
      | Inr x \<Rightarrow>
          if x > tol then number_large_residuals_loop h tol cs (lr + 1)
          else (case body_minus_upper (con_heap h c) of
                  Inl e \<Rightarrow> Inl e
                | Inr y \<Rightarrow>
                    if y > tol then number_large_residuals_loop h tol cs (lr + 1)
                    else number_large_residuals_loop h tol cs lr))"

definition number_large_residuals :: "store \<Rightarrow> block \<Rightarrow> real \<Rightarrow> pyexc + int" where
  "number_large_residuals h blk tol =
     number_large_residuals_loop h tol
       (iter_indexed_block_data_objects h blk Constraint (Some True) True) 0"

section \<open>The specification's wording\<close>

text \<open>
  The classification rule of the data model: an equality has both bounds, with equal
  values; an inequality lacks at least one bound.
\<close>

definition spec_equality :: "ConstraintData \<Rightarrow> bool" where
  "spec_equality c =
     (case lower c of
        None \<Rightarrow> False
      | Some l \<Rightarrow>
          (case upper c of
             None \<Rightarrow> False
           | Some u \<Rightarrow> bound_value (Some l) = bound_value (Some u)))"

definition spec_inequality :: "ConstraintData \<Rightarrow> bool" where
  "spec_inequality c = (lower c = None \<or> upper c = None)"

text \<open>
  The activated blocks, in the words of the glossary: those reached from the block passed
  through an unbroken chain of active blocks, and themselves active. First the activated
  blocks below a block, then those of a model.
\<close>

fun activated_below :: "BlockData \<Rightarrow> BlockData list" where
  "activated_below (BlockData i a vs cs os gs bs) =
     concat (map (\<lambda>w. if block_active w then w # activated_below w else []) bs)"

definition spec_activated_blocks :: "block \<Rightarrow> BlockData list" where
  "spec_activated_blocks blk =
     concat (map (\<lambda>b. if block_active b then b # activated_below b else []) (block_datas blk))"


text \<open>
  The activated grey-box blocks: the grey-box blocks declared on an activated block that
  are active.
\<close>

definition spec_activated_greyboxes :: "store \<Rightarrow> block \<Rightarrow> addr set" where
  "spec_activated_greyboxes h blk =
     set (filter (\<lambda>g. gb_active (gb_heap h g))
       (concat (map block_greyboxes (spec_activated_blocks blk))))"

text \<open>
  The active grey-box blocks declared on the block passed itself (on each of its members,
  when it is indexed), whatever the flag of that block. When the block passed is active,
  they are among the activated grey-box blocks.
\<close>

definition local_activated_greyboxes :: "store \<Rightarrow> block \<Rightarrow> addr set" where
  "local_activated_greyboxes h blk =
     set (filter (\<lambda>g. gb_active (gb_heap h g)) (concat (map block_greyboxes (block_datas blk))))"




text \<open>
  What large-residual detection reports for one constraint: it is flagged when its
  residual cannot be computed or exceeds the tolerance, and its entry in the dictionary
  is the residual, or \<^verbatim>\<open>None\<close> when there is none.
\<close>

definition flagged :: "real \<Rightarrow> ConstraintData \<Rightarrow> bool" where
  "flagged tol c = (case residual c of Inl e \<Rightarrow> True | Inr r \<Rightarrow> r > tol)"

definition marker :: "ConstraintData \<Rightarrow> real option" where
  "marker c = (case residual c of Inl e \<Rightarrow> None | Inr r \<Rightarrow> Some r)"

text \<open>\<^verbatim>\<open>g.deactivate()\<close> on a grey-box block: its flag is cleared, nothing else changes.\<close>

definition deactivate_greybox :: "store \<Rightarrow> addr \<Rightarrow> store" where
  "deactivate_greybox h g = h\<lparr>gb_heap := (gb_heap h)(g := (gb_heap h g)\<lparr>gb_active := False\<rparr>)\<rparr>"

text \<open>The variables of one grey-box block.\<close>

definition greybox_vars_of :: "store \<Rightarrow> addr \<Rightarrow> addr set" where
  "greybox_vars_of h g = set (inputs (gb_heap h g)) \<union> set (outputs (gb_heap h g))"



section \<open>Example models\<close>

text \<open>
  One store. Variable 1 lies in \<open>[0, 10]\<close> at 9.9999, variable 2 is fixed, variable 7 is
  above its upper bound and variable 8 far below its lower bound; the others are free and
  have no value. Constraint 1 is an equality over variables 1 to 3; constraint 2
  is an inequality whose body cannot be evaluated (variable 3 has no value); the body of
  constraint 3 divides by zero; the bounds of constraint 5 are one mutable parameter, of
  value 3; constraint 6 is an equality over variables 7 and 8. Grey-box block 1 has one input, two outputs and three
  equality constraints of its own.
\<close>

definition ex_vars :: "addr \<Rightarrow> VarData" where
  "ex_vars =
     (\<lambda>v. \<lparr>fixed = False, var_value = None, lb = None, ub = None\<rparr>)
       (1 := \<lparr>fixed = False, var_value = Some 9.9999, lb = Some 0, ub = Some 10\<rparr>,
        2 := \<lparr>fixed = True, var_value = Some 1, lb = None, ub = None\<rparr>,
        7 := \<lparr>fixed = False, var_value = Some 12, lb = Some 0, ub = Some 10\<rparr>,
        8 := \<lparr>fixed = False, var_value = Some (- 1000000), lb = Some 0, ub = None\<rparr>)"

definition ex_cons :: "addr \<Rightarrow> ConstraintData" where
  "ex_cons =
     (\<lambda>c. \<lparr>con_active = True, lower = None, upper = None, body = Inr 0, body_vars = []\<rparr>)
       (1 := \<lparr>con_active = True, lower = Some (NumericConstant 0),
              upper = Some (NumericConstant 0), body = Inr 0, body_vars = [1, 2, 3]\<rparr>,
        2 := \<lparr>con_active = True, lower = None, upper = Some (NumericConstant 5),
              body = Inl ValueError, body_vars = [3]\<rparr>,
        3 := \<lparr>con_active = True, lower = Some (NumericConstant 1),
              upper = Some (NumericConstant 1), body = Inl ZeroDivisionError, body_vars = [1]\<rparr>,
        5 := \<lparr>con_active = True, lower = Some (MutableExpression 3),
              upper = Some (MutableExpression 3), body = Inr 3, body_vars = [1]\<rparr>,
        6 := \<lparr>con_active = True, lower = Some (NumericConstant 2),
              upper = Some (NumericConstant 2), body = Inr 2, body_vars = [7, 8]\<rparr>)"

definition ex_greyboxes :: "addr \<Rightarrow> GreyBoxData" where
  "ex_greyboxes =
     (\<lambda>g. \<lparr>gb_active = True, inputs = [], outputs = [], n_equality_constraints = 0\<rparr>)
       (1 := \<lparr>gb_active = True, inputs = [4], outputs = [5, 6], n_equality_constraints = 3\<rparr>)"

definition ex_store :: store where
  "ex_store =
     \<lparr>var_heap = ex_vars, con_heap = ex_cons, obj_active = (\<lambda>ob. True), gb_heap = ex_greyboxes\<rparr>"

text \<open>A model with the grey-box block, and the same model without it.\<close>

definition ex_greybox_model :: block where
  "ex_greybox_model = ScalarBlock (BlockData 0 True [1, 2, 3] [1] [] [1] [])"


text \<open>A deactivated block holding an active equality and an active inequality.\<close>

definition ex_deactivated_model :: block where
  "ex_deactivated_model = ScalarBlock (BlockData 0 False [] [1, 2] [] [] [])"

text \<open>Constraint 1 reached twice: declared on the model, and referenced from a sub-block.\<close>

definition ex_reference_model :: block where
  "ex_reference_model =
     ScalarBlock (BlockData 0 True [] [1] [] [] [BlockData 7 True [] [1] [] [] []])"

text \<open>A model with an equality (constraint 1) and a constraint without bounds (constraint 4).\<close>

definition ex_unbounded_model :: block where
  "ex_unbounded_model = ScalarBlock (BlockData 0 True [1, 2, 3] [1, 4] [] [] [])"





text \<open>Models for large-residual detection.\<close>

definition ex_unevaluable_model :: block where
  "ex_unevaluable_model = ScalarBlock (BlockData 0 True [1, 2, 3] [1, 2] [] [] [])"

definition ex_zero_division_model :: block where
  "ex_zero_division_model = ScalarBlock (BlockData 0 True [1] [3] [] [] [])"

section \<open>Facts about ComponentSet\<close>

lemma set_ComponentSet_add: "set (ComponentSet_add s x) = insert x (set s)"
  by (auto simp: ComponentSet_add_def)

lemma distinct_ComponentSet_add: "distinct s \<Longrightarrow> distinct (ComponentSet_add s x)"
  by (simp add: ComponentSet_add_def)

lemma set_foldl_add: "set (foldl ComponentSet_add s xs) = set s \<union> set xs"
  by (induction xs arbitrary: s) (auto simp: set_ComponentSet_add)

lemma distinct_foldl_add: "distinct s \<Longrightarrow> distinct (foldl ComponentSet_add s xs)"
  by (induction xs arbitrary: s) (auto simp: distinct_ComponentSet_add)

lemma set_ComponentSet: "set (ComponentSet xs) = set xs"
  by (simp add: ComponentSet_def set_foldl_add)

lemma distinct_ComponentSet: "distinct (ComponentSet xs)"
  by (simp add: ComponentSet_def distinct_foldl_add)

lemma len_ComponentSet: "len (ComponentSet xs) = int (card (set xs))"
  using distinct_card [OF distinct_ComponentSet, of xs]
  by (simp add: len_def set_ComponentSet)

lemma foldl_add_distinct: "distinct (s @ xs) \<Longrightarrow> foldl ComponentSet_add s xs = s @ xs"
  by (induction xs arbitrary: s) (auto simp: ComponentSet_add_def)

lemma ComponentSet_distinct: "distinct xs \<Longrightarrow> ComponentSet xs = xs"
  using foldl_add_distinct [of "[]" xs] by (simp add: ComponentSet_def)

lemma ComponentSet_filter:
  "ComponentSet (filter P (ComponentSet xs)) = filter P (ComponentSet xs)"
  by (simp add: ComponentSet_distinct distinct_ComponentSet)

lemma set_difference: "set (difference s t) = set s - set t"
  by (auto simp: difference_def)

lemma len_le_length: "len (ComponentSet xs) \<le> int (length xs)"
  by (simp add: len_ComponentSet card_length)


section \<open>Facts about the walker\<close>

lemma passes_None: "passes None f"
  by (simp add: passes_def)

lemma passes_Some: "passes (Some a) f = (f = a)"
  by (simp add: passes_def)

lemma itervalues_None: "component_data_itervalues h ct None = members ct"
  by (rule ext) (simp add: component_data_itervalues_def passes_None)

lemma component_data_objects_None:
  "component_data_objects h ct None d = component_data_objects h' ct None d"
  by (rule ext) (simp add: component_data_objects_def itervalues_None)

lemma iter_None:
  "iter_indexed_block_data_objects h blk ct None d = iter_indexed_block_data_objects h' blk ct None d"
  by (cases blk) (simp_all add: component_data_objects_None [of h ct d h'])

lemma itervalues_cong:
  "(\<And>c. is_active ct h c = is_active ct h' c) \<Longrightarrow>
   component_data_itervalues h ct act = component_data_itervalues h' ct act"
  by (rule ext) (simp add: component_data_itervalues_def)

lemma component_data_objects_cong:
  "(\<And>c. is_active ct h c = is_active ct h' c) \<Longrightarrow>
   component_data_objects h ct act d = component_data_objects h' ct act d"
  by (rule ext) (simp add: component_data_objects_def itervalues_cong [of ct h h' act])

lemma iter_cong:
  "(\<And>c. is_active ct h c = is_active ct h' c) \<Longrightarrow>
   iter_indexed_block_data_objects h blk ct act d = iter_indexed_block_data_objects h' blk ct act d"
  by (cases blk) (simp_all add: component_data_objects_cong [of ct h h' act d])

lemma iter_Block: 
  "iter_indexed_block_data_objects h blk Block act d = iter_indexed_block_data_objects h' blk Block act d"
  by (rule iter_cong) (simp add: Block_def)

lemma iter_Var: 
  "iter_indexed_block_data_objects h blk Var act d = iter_indexed_block_data_objects h' blk Var act d"
  by (rule iter_cong) (simp add: Var_def)

lemma iter_Constraint:
  "con_heap h = con_heap h' \<Longrightarrow>
   iter_indexed_block_data_objects h blk Constraint act d =
   iter_indexed_block_data_objects h' blk Constraint act d"
  by (rule iter_cong) (simp add: Constraint_def)

lemma generator_store:
  "activated_block_component_generator h blk ct = activated_block_component_generator h' blk ct"
  by (simp add: activated_block_component_generator_def iter_None [of h blk ct False h']
      iter_Block [of h blk "Some True" True h'] component_data_objects_None [of h ct False h'])

section \<open>Facts about grey-box blocks\<close>

lemma distinct_greybox_block_set: "distinct (greybox_block_set h blk)"
  by (simp add: greybox_block_set_def distinct_ComponentSet)

lemma activated_greybox_block_set_filter:
  "activated_greybox_block_set h blk =
   filter (\<lambda>g. gb_active (gb_heap h g)) (greybox_block_set h blk)"
  by (simp add: activated_greybox_block_set_def greybox_block_set_def ComponentSet_filter)

lemma distinct_activated_greybox_block_set: "distinct (activated_greybox_block_set h blk)"
  by (simp add: activated_greybox_block_set_def distinct_ComponentSet)

lemma set_greybox_variables:
  "set (greybox_variables h blk) =
   (\<Union>g\<in>set (activated_greybox_block_set h blk). greybox_vars_of h g)"
  by (auto simp: greybox_variables_def set_ComponentSet greybox_vars_of_def)




section \<open>Facts about models without grey-box blocks\<close>
















section \<open>Facts about the classification of constraints\<close>

lemma value_equality:
  "(upper c \<noteq> None \<and> lower c \<noteq> None \<and> bound_value (upper c) = bound_value (lower c)) =
   spec_equality c"
  by (auto simp: spec_equality_def split: option.splits)

lemma code_inequality: "(upper c = None \<or> lower c = None) = spec_inequality c"
  by (auto simp: spec_inequality_def)

lemma yield_if_Inr:
  "yield_if test cs = Inr ys \<Longrightarrow>
   ys = filter (\<lambda>c. test c = Inr True) cs \<and> (\<forall>c\<in>set cs. \<exists>t. test c = Inr t)"
  by (induction cs arbitrary: ys) (auto split: sum.splits if_splits)

lemma yield_if_total:
  "\<forall>c\<in>set cs. test c = Inr (p c) \<Longrightarrow> yield_if test cs = Inr (filter p cs)"
  by (induction cs) auto

lemma yield_if_raises:
  "\<forall>c\<in>set as. \<exists>t. test c = Inr t \<Longrightarrow> test c = Inl e \<Longrightarrow>
   yield_if test (as @ c # cs) = Inl e"
  by (induction as) auto

text \<open>Where the test of the total classifier returns, it returns what the rule says.\<close>

lemma total_equality_test_Inr: "total_equality_test c = Inr t \<Longrightarrow> t = spec_equality c"
  by (cases "upper c"; cases "lower c")
    (auto simp: total_equality_test_def spec_equality_def bound_value_def
      elim: bounds_equal.elims)

lemma total_equality_test_constants:
  assumes "\<forall>r. upper c \<noteq> Some (MutableExpression r)"
    and "\<forall>r. lower c \<noteq> Some (MutableExpression r)"
  shows "total_equality_test c = Inr (spec_equality c)"
proof (cases "upper c")
  case None
  then show ?thesis by (simp add: total_equality_test_def spec_equality_def split: option.splits)
next
  case u: (Some u)
  show ?thesis
  proof (cases "lower c")
    case None
    then show ?thesis by (simp add: total_equality_test_def spec_equality_def)
  next
    case l: (Some l)
    from assms u l obtain a b where "u = NumericConstant a" "l = NumericConstant b"
      by (cases u; cases l) auto
    with u l show ?thesis
      by (auto simp: total_equality_test_def spec_equality_def bound_value_def)
  qed
qed

lemma total_equalities_generator_Inr:
  "total_equalities_generator h blk = Inr cs \<Longrightarrow>
   cs = filter (\<lambda>c. spec_equality (con_heap h c))
          (activated_block_component_generator h blk Constraint)"
proof -
  assume r: "total_equalities_generator h blk = Inr cs"
  let ?xs = "activated_block_component_generator h blk Constraint"
  from r have ys: "cs = filter (\<lambda>c. total_equality_test (con_heap h c) = Inr True) ?xs"
    and ok: "\<forall>c\<in>set ?xs. \<exists>t. total_equality_test (con_heap h c) = Inr t"
    using yield_if_Inr [of "\<lambda>c. total_equality_test (con_heap h c)" ?xs cs]
    by (simp_all add: total_equalities_generator_def)
  have "(total_equality_test (con_heap h c) = Inr True) = spec_equality (con_heap h c)"
    if "c \<in> set ?xs" for c
  proof -
    from ok that obtain t where t: "total_equality_test (con_heap h c) = Inr t" by blast
    with total_equality_test_Inr [OF t] show ?thesis by simp
  qed
  then show ?thesis
    unfolding ys by (intro filter_cong refl)
qed

text \<open>
  What the classifiers keep of their streams. The activated equality classifier and the
  three inequality classifiers follow the rule of the data model on every stream; the
  total and the deactivated equality classifiers do where every bound is a constant.
\<close>

lemma classification_of_streams:
  "activated_equalities_generator h blk =
     filter (\<lambda>c. spec_equality (con_heap h c))
       (iter_indexed_block_data_objects h blk Constraint (Some True) True)"
  "total_inequalities_generator h blk =
     filter (\<lambda>c. spec_inequality (con_heap h c)) (activated_block_component_generator h blk Constraint)"
  "activated_inequalities_generator h blk =
     filter (\<lambda>c. spec_inequality (con_heap h c))
       (iter_indexed_block_data_objects h blk Constraint (Some True) True)"
  "deactivated_inequalities_generator h blk =
     filter (\<lambda>c. spec_inequality (con_heap h c)) (deactivated_constraints_generator h blk)"
proof -
  show "activated_equalities_generator h blk =
     filter (\<lambda>c. spec_equality (con_heap h c))
       (iter_indexed_block_data_objects h blk Constraint (Some True) True)"
    by (simp only: activated_equalities_generator_def value_equality)
qed (simp_all add: total_inequalities_generator_def activated_inequalities_generator_def
      deactivated_inequalities_generator_def deactivated_constraints_generator_def
      code_inequality conj_commute)

lemma classification_of_constant_bounds:
  assumes "\<forall>c\<in>set (activated_block_component_generator h blk Constraint).
      (\<forall>r. upper (con_heap h c) \<noteq> Some (MutableExpression r)) \<and>
      (\<forall>r. lower (con_heap h c) \<noteq> Some (MutableExpression r))"
  shows "total_equalities_generator h blk =
     Inr (filter (\<lambda>c. spec_equality (con_heap h c))
       (activated_block_component_generator h blk Constraint))"
    and "deactivated_equalities_generator h blk =
     Inr (filter (\<lambda>c. spec_equality (con_heap h c)) (deactivated_constraints_generator h blk))"
proof -
  have "\<forall>c\<in>set (activated_block_component_generator h blk Constraint).
      total_equality_test (con_heap h c) = Inr (spec_equality (con_heap h c))"
    using assms total_equality_test_constants by blast
  then show t: "total_equalities_generator h blk =
     Inr (filter (\<lambda>c. spec_equality (con_heap h c))
       (activated_block_component_generator h blk Constraint))"
    unfolding total_equalities_generator_def by (rule yield_if_total)
  show "deactivated_equalities_generator h blk =
     Inr (filter (\<lambda>c. spec_equality (con_heap h c)) (deactivated_constraints_generator h blk))"
    by (simp add: deactivated_equalities_generator_def t deactivated_constraints_generator_def
        conj_commute)
qed

section \<open>Classification of constraints\<close>


section \<open>Grey-box blocks\<close>




section \<open>Facts about near-bound detection\<close>




section \<open>Variables near their bounds\<close>






section \<open>Facts about large-residual detection\<close>

lemma large_residuals_loop_caught:
  assumes "\<forall>c\<in>set cs. \<forall>e. residual (con_heap h c) = Inl e \<longrightarrow> caught e"
  shows "large_residuals_loop h tol rrv cs (s, d) =
     Inr (foldl ComponentSet_add s (filter (\<lambda>c. flagged tol (con_heap h c)) cs),
          if rrv
          then d ++ (\<lambda>c. if c \<in> set cs \<and> flagged tol (con_heap h c)
                          then Some (marker (con_heap h c)) else None)
          else d)"
  using assms
proof (induction cs arbitrary: s d)
  case Nil
  then show ?case by (simp add: map_add_def)
next
  case (Cons c cs)
  then have rest: "\<forall>c\<in>set cs. \<forall>e. residual (con_heap h c) = Inl e \<longrightarrow> caught e"
    by simp
  show ?case
  proof (cases "residual (con_heap h c)")
    case (Inl e)
    with Cons.prems have "caught e" by simp
    with Inl show ?thesis
      by (auto simp: Cons.IH [OF rest] flagged_def marker_def map_add_def fun_eq_iff
          split: option.splits)
  next
    case (Inr r)
    then show ?thesis
      by (auto simp: Cons.IH [OF rest] flagged_def marker_def map_add_def fun_eq_iff
          split: option.splits)
  qed
qed

lemma large_residuals_loop_uncaught:
  assumes "\<forall>c'\<in>set cs1. \<forall>e. residual (con_heap h c') = Inl e \<longrightarrow> caught e"
    and "residual (con_heap h c) = Inl e" and "\<not> caught e"
  shows "large_residuals_loop h tol rrv (cs1 @ c # cs2) (s, d) = Inl e"
  using assms by (induction cs1 arbitrary: s d) (auto split: sum.splits)

section \<open>Large residuals\<close>

text \<open>
  Claim C4, as amended. \<^verbatim>\<open>large_residuals_set\<close> does not let an \<^verbatim>\<open>AttributeError\<close>, a
  \<^verbatim>\<open>TypeError\<close> or a \<^verbatim>\<open>ValueError\<close> of an evaluation leave the call: when these are the
  only failures, the call returns, the set holds exactly the activated constraints whose
  residual cannot be computed or exceeds the tolerance, and the dictionary maps the
  former to \<^verbatim>\<open>None\<close> and the latter to their residual. An exception of another class,
  raised at the first constraint that fails so, ends the call.
\<close>

theorem large_residuals_caught:
  "((\<forall>c\<in>set (iter_indexed_block_data_objects h blk Constraint (Some True) True).
       \<forall>e. residual (con_heap h c) = Inl e \<longrightarrow> caught e) \<longrightarrow>
     large_residuals_set h blk tol False =
       Inr (LargeResidualsSet (ComponentSet (filter (\<lambda>c. flagged tol (con_heap h c))
         (iter_indexed_block_data_objects h blk Constraint (Some True) True)))) \<and>
     large_residuals_set h blk tol True =
       Inr (ResidualValues (\<lambda>c.
         if c \<in> set (iter_indexed_block_data_objects h blk Constraint (Some True) True) \<and>
            flagged tol (con_heap h c)
         then Some (marker (con_heap h c)) else None)))
   \<and> (iter_indexed_block_data_objects h blk Constraint (Some True) True = cs1 @ c # cs2 \<and>
      (\<forall>c'\<in>set cs1. \<forall>e. residual (con_heap h c') = Inl e \<longrightarrow> caught e) \<and>
      residual (con_heap h c) = Inl e \<and> \<not> caught e \<longrightarrow>
        large_residuals_set h blk tol rrv = Inl e)
   \<and> (caught e \<longleftrightarrow> e = AttributeError \<or> e = TypeError \<or> e = ValueError)
   \<and> (flagged tol (con_heap h c) \<longleftrightarrow>
        (case residual (con_heap h c) of Inl e \<Rightarrow> True | Inr r \<Rightarrow> r > tol))
   \<and> (marker (con_heap h c) =
        (case residual (con_heap h c) of Inl e \<Rightarrow> None | Inr r \<Rightarrow> Some r))"
proof -
  let ?walk = "iter_indexed_block_data_objects h blk Constraint (Some True) True"
  have a: "(\<forall>c\<in>set ?walk. \<forall>e. residual (con_heap h c) = Inl e \<longrightarrow> caught e) \<longrightarrow>
     large_residuals_set h blk tol False =
       Inr (LargeResidualsSet (ComponentSet (filter (\<lambda>c. flagged tol (con_heap h c)) ?walk))) \<and>
     large_residuals_set h blk tol True =
       Inr (ResidualValues (\<lambda>c.
         if c \<in> set ?walk \<and> flagged tol (con_heap h c)
         then Some (marker (con_heap h c)) else None))"
    by (simp add: large_residuals_set_def large_residuals_loop_caught ComponentSet_def
        map_add_def)
  have b: "?walk = cs1 @ c # cs2 \<and>
      (\<forall>c'\<in>set cs1. \<forall>e. residual (con_heap h c') = Inl e \<longrightarrow> caught e) \<and>
      residual (con_heap h c) = Inl e \<and> \<not> caught e \<longrightarrow>
        large_residuals_set h blk tol rrv = Inl e"
    by (simp add: large_residuals_set_def large_residuals_loop_uncaught)
  from a b show ?thesis
    by (simp add: caught_def flagged_def marker_def)
qed

theorem large_residuals_caught_witness:
  "large_residuals_set ex_store ex_unevaluable_model (1 / 100000) False =
     Inr (LargeResidualsSet [2])
   \<and> (\<exists>d. large_residuals_set ex_store ex_unevaluable_model (1 / 100000) True =
            Inr (ResidualValues d) \<and> d 1 = None \<and> d 2 = Some None)"
proof -
  note rule = large_residuals_caught [of ex_store ex_unevaluable_model "1 / 100000"]
  have walk: "iter_indexed_block_data_objects ex_store ex_unevaluable_model Constraint
      (Some True) True = [1, 2]"
    by code_simp
  have r1: "residual (con_heap ex_store (Suc 0)) = Inr 0"
    by (simp add: residual_def ex_store_def ex_cons_def bound_value_def)
  have r2: "residual (con_heap ex_store 2) = Inl ValueError"
    by (simp add: residual_def ex_store_def ex_cons_def bound_value_def)
  have ok: "\<forall>c\<in>set (iter_indexed_block_data_objects ex_store ex_unevaluable_model Constraint
      (Some True) True). \<forall>e. residual (con_heap ex_store c) = Inl e \<longrightarrow> caught e"
    by (simp add: walk r1 r2 caught_def)
  have f: "\<not> flagged (1 / 100000) (con_heap ex_store (Suc 0))"
      "flagged (1 / 100000) (con_heap ex_store 2)"
      "marker (con_heap ex_store 2) = None"
    by (simp_all add: flagged_def marker_def r1 r2)
  from rule ok have
    "large_residuals_set ex_store ex_unevaluable_model (1 / 100000) False =
       Inr (LargeResidualsSet (ComponentSet (filter (\<lambda>c. flagged (1 / 100000) (con_heap ex_store c))
         (iter_indexed_block_data_objects ex_store ex_unevaluable_model Constraint (Some True) True))))"
    and "large_residuals_set ex_store ex_unevaluable_model (1 / 100000) True =
       Inr (ResidualValues (\<lambda>c.
         if c \<in> set (iter_indexed_block_data_objects ex_store ex_unevaluable_model Constraint (Some True) True) \<and>
            flagged (1 / 100000) (con_heap ex_store c)
         then Some (marker (con_heap ex_store c)) else None))"
    by blast+
  then show ?thesis
    by (simp add: walk f ComponentSet_def ComponentSet_add_def)
qed

text \<open>
  The claim as stated fails twice: a division by zero in a body leaves
  \<^verbatim>\<open>large_residuals_set\<close>, and \<^verbatim>\<open>number_large_residuals\<close>, which has no \<^verbatim>\<open>try\<close>, raises on
  a body that has no value.
\<close>

theorem large_residuals_counterexample:
  "large_residuals_set ex_store ex_zero_division_model (1 / 100000) False = Inl ZeroDivisionError
   \<and> number_large_residuals ex_store ex_unevaluable_model (1 / 100000) = Inl ValueError"
proof -
  have "large_residuals_set ex_store ex_zero_division_model (1 / 100000) False =
      Inl ZeroDivisionError"
    by (simp add: large_residuals_set_def component_data_objects_def block_data_objects_def
        component_data_itervalues_def passes_def Constraint_def ex_zero_division_model_def
        ex_store_def ex_cons_def residual_def caught_def)
  moreover have "number_large_residuals ex_store ex_unevaluable_model (1 / 100000) = Inl ValueError"
    by (simp add: number_large_residuals_def component_data_objects_def block_data_objects_def
        component_data_itervalues_def passes_def Constraint_def ex_unevaluable_model_def
        ex_store_def ex_cons_def lower_minus_body_def body_minus_upper_def)
  ultimately show ?thesis by blast
qed

section \<open>Facts about the variable sets\<close>

lemma iter_deactivate_greybox:
  "iter_indexed_block_data_objects (deactivate_greybox h g) blk Var act d =
   iter_indexed_block_data_objects h blk Var act d"
  "iter_indexed_block_data_objects (deactivate_greybox h g) blk Constraint act d =
   iter_indexed_block_data_objects h blk Constraint act d"
  by (rule iter_Var, rule iter_Constraint, simp add: deactivate_greybox_def)

lemma greybox_block_set_store: "greybox_block_set h blk = greybox_block_set h' blk"
  by (simp add: greybox_block_set_def generator_store [of h blk ExternalGreyBoxBlock h'])

lemma activated_greybox_block_set_deactivate:
  "activated_greybox_block_set (deactivate_greybox h g) blk =
   filter (\<lambda>g'. g' \<noteq> g) (activated_greybox_block_set h blk)"
proof -
  have "gb_active (gb_heap (deactivate_greybox h g) x) = (gb_active (gb_heap h x) \<and> x \<noteq> g)"
    for x
    by (simp add: deactivate_greybox_def)
  then show ?thesis
    by (simp add: activated_greybox_block_set_filter
        greybox_block_set_store [of "deactivate_greybox h g" blk h])
qed

lemma greybox_vars_of_deactivate:
  "g' \<noteq> g \<Longrightarrow> greybox_vars_of (deactivate_greybox h g) g' = greybox_vars_of h g'"
  by (simp add: greybox_vars_of_def deactivate_greybox_def)

lemma set_greybox_variables_deactivate:
  "set (greybox_variables (deactivate_greybox h g) blk) =
   (\<Union>g'\<in>set (activated_greybox_block_set h blk) - {g}. greybox_vars_of h g')"
  by (auto simp: set_greybox_variables activated_greybox_block_set_deactivate
      greybox_vars_of_deactivate)

lemma set_variables_set:
  "set (variables_set h blk) =
   set (iter_indexed_block_data_objects h blk Var (Some True) True) \<union>
   set (greybox_variables h blk)"
  by (simp add: variables_set_def set_ComponentSet)

lemma set_variables_in_activated_constraints_set:
  "set (variables_in_activated_constraints_set h blk) =
   (\<Union>c\<in>set (iter_indexed_block_data_objects h blk Constraint (Some True) True).
      set (body_vars (con_heap h c))) \<union>
   set (greybox_variables h blk)"
  by (simp add: variables_in_activated_constraints_set_def set_ComponentSet)

lemma con_heap_deactivate: "con_heap (deactivate_greybox h g) = con_heap h"
  by (simp add: deactivate_greybox_def)

section \<open>Deactivating a grey-box block\<close>

text \<open>
  Claim C9, as amended. The grey-box variables are variables of the model, and variables
  in activated constraints. Deactivating a grey-box block leaves the walked variables and
  the variables of the activated constraints' bodies as they are, and leaves of the
  grey-box variables those of the other activated grey-box blocks. So a variable of the
  deactivated block that no other activated grey-box block holds leaves the variables in
  activated constraints unless an activated constraint's body has it, and leaves the
  variables of the model unless the variable walk yields it.
\<close>

theorem greybox_deactivation:
  "set (greybox_variables h blk) \<subseteq> set (variables_set h blk)
   \<and> set (greybox_variables h blk) \<subseteq> set (variables_in_activated_constraints_set h blk)
   \<and> set (greybox_variables (deactivate_greybox h g) blk) =
       (\<Union>g'\<in>set (activated_greybox_block_set h blk) - {g}. greybox_vars_of h g')
   \<and> set (variables_in_activated_constraints_set (deactivate_greybox h g) blk) =
       (\<Union>c\<in>set (iter_indexed_block_data_objects h blk Constraint (Some True) True).
          set (body_vars (con_heap h c))) \<union>
       (\<Union>g'\<in>set (activated_greybox_block_set h blk) - {g}. greybox_vars_of h g')
   \<and> set (variables_set (deactivate_greybox h g) blk) =
       set (iter_indexed_block_data_objects h blk Var (Some True) True) \<union>
       (\<Union>g'\<in>set (activated_greybox_block_set h blk) - {g}. greybox_vars_of h g')
   \<and> (v \<in> greybox_vars_of h g \<and>
      v \<notin> (\<Union>g'\<in>set (activated_greybox_block_set h blk) - {g}. greybox_vars_of h g') \<and>
      v \<notin> (\<Union>c\<in>set (iter_indexed_block_data_objects h blk Constraint (Some True) True).
              set (body_vars (con_heap h c))) \<longrightarrow>
        v \<notin> set (variables_in_activated_constraints_set (deactivate_greybox h g) blk))
   \<and> (v \<in> greybox_vars_of h g \<and>
      v \<notin> (\<Union>g'\<in>set (activated_greybox_block_set h blk) - {g}. greybox_vars_of h g') \<and>
      v \<notin> set (iter_indexed_block_data_objects h blk Var (Some True) True) \<longrightarrow>
        v \<notin> set (variables_set (deactivate_greybox h g) blk))
   \<and> greybox_vars_of h g = set (inputs (gb_heap h g)) \<union> set (outputs (gb_heap h g))"
proof -
  have a: "set (greybox_variables h blk) \<subseteq> set (variables_set h blk)"
    by (simp add: set_variables_set)
  have b: "set (greybox_variables h blk) \<subseteq> set (variables_in_activated_constraints_set h blk)"
    by (simp add: set_variables_in_activated_constraints_set)
  have c: "set (variables_in_activated_constraints_set (deactivate_greybox h g) blk) =
       (\<Union>c\<in>set (iter_indexed_block_data_objects h blk Constraint (Some True) True).
          set (body_vars (con_heap h c))) \<union>
       (\<Union>g'\<in>set (activated_greybox_block_set h blk) - {g}. greybox_vars_of h g')"
    by (simp only: set_variables_in_activated_constraints_set iter_deactivate_greybox
        set_greybox_variables_deactivate con_heap_deactivate)
  have d: "set (variables_set (deactivate_greybox h g) blk) =
       set (iter_indexed_block_data_objects h blk Var (Some True) True) \<union>
       (\<Union>g'\<in>set (activated_greybox_block_set h blk) - {g}. greybox_vars_of h g')"
    by (simp only: set_variables_set iter_deactivate_greybox set_greybox_variables_deactivate)
  show ?thesis
    unfolding c d set_greybox_variables_deactivate
    using a b by (simp add: greybox_vars_of_def)
qed

theorem greybox_deactivation_witness:
  "set (variables_set (deactivate_greybox ex_store 1) ex_greybox_model) = {1, 2, 3}
   \<and> 4 \<notin> set (variables_set (deactivate_greybox ex_store 1) ex_greybox_model)
   \<and> 4 \<notin> set (variables_in_activated_constraints_set (deactivate_greybox ex_store 1)
               ex_greybox_model)"
proof -
  note rule = greybox_deactivation [of ex_store ex_greybox_model 1 4]
  have s: "activated_greybox_block_set ex_store ex_greybox_model = [1]"
    by code_simp
  have w: "iter_indexed_block_data_objects ex_store ex_greybox_model Var (Some True) True =
      [1, 2, 3]"
    by code_simp
  have c: "iter_indexed_block_data_objects ex_store ex_greybox_model Constraint (Some True) True =
      [1]"
    by code_simp
  have b: "body_vars (con_heap ex_store (Suc 0)) = [1, 2, 3]"
    by (simp add: ex_store_def ex_cons_def)
  have g: "greybox_vars_of ex_store (Suc 0) = {4, 5, 6}"
    by (auto simp: greybox_vars_of_def ex_store_def ex_greyboxes_def)
  from rule show ?thesis
    by (simp add: s w c b g)
qed

text \<open>
  The claim as stated fails: variable 4, an input of grey-box block 1, is a variable of
  the model while the block is active, and is none once the block, still declared on the
  model, is deactivated.
\<close>

theorem greybox_deactivation_counterexample:
  "4 \<in> set (variables_set ex_store ex_greybox_model)
   \<and> 1 \<in> set (activated_greybox_block_set ex_store ex_greybox_model)
   \<and> 4 \<in> set (inputs (gb_heap ex_store 1))
   \<and> 1 \<in> set (greybox_block_set (deactivate_greybox ex_store 1) ex_greybox_model)
   \<and> 4 \<notin> set (variables_set (deactivate_greybox ex_store 1) ex_greybox_model)"
  by code_simp

section \<open>Facts about the lengths of the sets\<close>

lemma len_distinct: "distinct xs \<Longrightarrow> len xs = int (card (set xs))"
  by (simp add: len_def distinct_card)

lemma distinct_difference: "distinct s \<Longrightarrow> distinct (difference s t)"
  by (simp add: difference_def)

lemma distinct_variable_sets:
  "distinct (variables_set h blk)"
  "distinct (fixed_variables_set h blk)"
  "distinct (unfixed_variables_set h blk)"
  "distinct (variables_near_bounds_set h blk tol relative skip_lb skip_ub abs_tol rel_tol)"
  "distinct (variables_in_activated_constraints_set h blk)"
  "distinct (variables_not_in_activated_constraints_set h blk)"
  "distinct (variables_in_activated_equalities_set h blk)"
  "distinct (variables_in_activated_inequalities_set h blk)"
  "distinct (variables_only_in_inequalities h blk)"
  "distinct (fixed_variables_in_activated_equalities_set h blk)"
  "distinct (unfixed_variables_in_activated_equalities_set h blk)"
  "distinct (fixed_variables_only_in_inequalities h blk)"
  "distinct (unused_variables_set h blk)"
  "distinct (fixed_unused_variables_set h blk)"
  "distinct (greybox_variables h blk)"
  "distinct (unfixed_greybox_variables h blk)"
  "distinct (deactivated_greybox_block_set h blk)"
  by (simp_all add: variables_set_def fixed_variables_set_def unfixed_variables_set_def
      variables_near_bounds_set_def variables_in_activated_constraints_set_def
      variables_not_in_activated_constraints_set_def variables_in_activated_equalities_set_def
      variables_in_activated_inequalities_set_def variables_only_in_inequalities_def
      fixed_variables_in_activated_equalities_set_def
      unfixed_variables_in_activated_equalities_set_def fixed_variables_only_in_inequalities_def
      unused_variables_set_def fixed_unused_variables_set_def greybox_variables_def
      unfixed_greybox_variables_def deactivated_greybox_block_set_def
      distinct_ComponentSet distinct_difference distinct_greybox_block_set)

section \<open>Counts and sets\<close>

text \<open>
  Claim C7, as amended. The numbers of variables and of grey-box blocks are the
  cardinalities of the deduplicated sets. The numbers of constraints count the walker's
  sequence as it comes: \<^verbatim>\<open>number_total_constraints\<close> is the length of the sequence of
  constraints of the activated blocks plus the grey-box equalities, and
  \<^verbatim>\<open>number_activated_constraints\<close> the length of its active part. They agree with
  \<^verbatim>\<open>len(total_constraints_set)\<close> plus the grey-box equalities and with
  \<^verbatim>\<open>len(activated_constraints_set)\<close> when the sequence reaches no constraint twice.
\<close>

theorem counts_and_sets:
  "number_variables h blk = int (card (set (variables_set h blk)))
   \<and> number_fixed_variables h blk = int (card (set (fixed_variables_set h blk)))
   \<and> number_unfixed_variables h blk = int (card (set (unfixed_variables_set h blk)))
   \<and> number_variables_near_bounds h blk tol abs_tol rel_tol =
       int (card (set (variables_near_bounds_set h blk tol None False False abs_tol rel_tol)))
   \<and> number_variables_in_activated_constraints h blk =
       int (card (set (variables_in_activated_constraints_set h blk)))
   \<and> number_variables_not_in_activated_constraints h blk =
       int (card (set (variables_not_in_activated_constraints_set h blk)))
   \<and> number_variables_in_activated_equalities h blk =
       int (card (set (variables_in_activated_equalities_set h blk)))
   \<and> number_variables_in_activated_inequalities h blk =
       int (card (set (variables_in_activated_inequalities_set h blk)))
   \<and> number_variables_only_in_inequalities h blk =
       int (card (set (variables_only_in_inequalities h blk)))
   \<and> number_fixed_variables_in_activated_equalities h blk =
       int (card (set (fixed_variables_in_activated_equalities_set h blk)))
   \<and> number_unfixed_variables_in_activated_equalities h blk =
       int (card (set (unfixed_variables_in_activated_equalities_set h blk)))
   \<and> number_fixed_variables_only_in_inequalities h blk =
       int (card (set (fixed_variables_only_in_inequalities h blk)))
   \<and> number_unused_variables h blk = int (card (set (unused_variables_set h blk)))
   \<and> number_fixed_unused_variables h blk = int (card (set (fixed_unused_variables_set h blk)))
   \<and> number_of_greybox_variables h blk = int (card (set (greybox_variables h blk)))
   \<and> number_of_unfixed_greybox_variables h blk =
       int (card (set (unfixed_greybox_variables h blk)))
   \<and> number_greybox_blocks h blk = int (card (set (greybox_block_set h blk)))
   \<and> number_activated_greybox_blocks h blk = int (card (set (activated_greybox_block_set h blk)))
   \<and> number_deactivated_greybox_block h blk =
       int (card (set (deactivated_greybox_block_set h blk)))
   \<and> number_total_constraints h blk =
       int (length (activated_block_component_generator h blk Constraint)) +
       number_activated_greybox_equalities h blk
   \<and> number_activated_constraints h blk =
       int (length (filter (\<lambda>c. con_active (con_heap h c))
         (activated_block_component_generator h blk Constraint)))
   \<and> len (total_constraints_set h blk) =
       int (card (set (activated_block_component_generator h blk Constraint)))
   \<and> len (activated_constraints_set h blk) =
       int (card {c \<in> set (activated_block_component_generator h blk Constraint).
                   con_active (con_heap h c)})
   \<and> (distinct (activated_block_component_generator h blk Constraint) \<longrightarrow>
        number_total_constraints h blk =
          len (total_constraints_set h blk) + number_activated_greybox_equalities h blk \<and>
        number_activated_constraints h blk = len (activated_constraints_set h blk))"
proof -
  have v: "number_variables h blk = int (card (set (variables_set h blk)))"
    "number_fixed_variables h blk = int (card (set (fixed_variables_set h blk)))"
    "number_unfixed_variables h blk = int (card (set (unfixed_variables_set h blk)))"
    "number_variables_near_bounds h blk tol abs_tol rel_tol =
       int (card (set (variables_near_bounds_set h blk tol None False False abs_tol rel_tol)))"
    "number_variables_in_activated_constraints h blk =
       int (card (set (variables_in_activated_constraints_set h blk)))"
    "number_variables_not_in_activated_constraints h blk =
       int (card (set (variables_not_in_activated_constraints_set h blk)))"
    "number_variables_in_activated_equalities h blk =
       int (card (set (variables_in_activated_equalities_set h blk)))"
    "number_variables_in_activated_inequalities h blk =
       int (card (set (variables_in_activated_inequalities_set h blk)))"
    "number_variables_only_in_inequalities h blk =
       int (card (set (variables_only_in_inequalities h blk)))"
    by (simp_all only: number_variables_def number_fixed_variables_def
        number_unfixed_variables_def number_variables_near_bounds_def
        number_variables_in_activated_constraints_def
        number_variables_not_in_activated_constraints_def
        number_variables_in_activated_equalities_def
        number_variables_in_activated_inequalities_def
        number_variables_only_in_inequalities_def
        len_distinct [OF distinct_variable_sets(1)] len_distinct [OF distinct_variable_sets(2)]
        len_distinct [OF distinct_variable_sets(3)] len_distinct [OF distinct_variable_sets(4)]
        len_distinct [OF distinct_variable_sets(5)] len_distinct [OF distinct_variable_sets(6)]
        len_distinct [OF distinct_variable_sets(7)] len_distinct [OF distinct_variable_sets(8)]
        len_distinct [OF distinct_variable_sets(9)])
  have w: "number_fixed_variables_in_activated_equalities h blk =
       int (card (set (fixed_variables_in_activated_equalities_set h blk)))"
    "number_unfixed_variables_in_activated_equalities h blk =
       int (card (set (unfixed_variables_in_activated_equalities_set h blk)))"
    "number_fixed_variables_only_in_inequalities h blk =
       int (card (set (fixed_variables_only_in_inequalities h blk)))"
    "number_unused_variables h blk = int (card (set (unused_variables_set h blk)))"
    "number_fixed_unused_variables h blk = int (card (set (fixed_unused_variables_set h blk)))"
    "number_of_greybox_variables h blk = int (card (set (greybox_variables h blk)))"
    "number_of_unfixed_greybox_variables h blk =
       int (card (set (unfixed_greybox_variables h blk)))"
    "number_greybox_blocks h blk = int (card (set (greybox_block_set h blk)))"
    "number_activated_greybox_blocks h blk = int (card (set (activated_greybox_block_set h blk)))"
    "number_deactivated_greybox_block h blk =
       int (card (set (deactivated_greybox_block_set h blk)))"
    by (simp_all only: number_fixed_variables_in_activated_equalities_def
        number_unfixed_variables_in_activated_equalities_def
        number_fixed_variables_only_in_inequalities_def number_unused_variables_def
        number_fixed_unused_variables_def number_of_greybox_variables_def
        number_of_unfixed_greybox_variables_def number_greybox_blocks_def
        number_activated_greybox_blocks_def number_deactivated_greybox_block_def
        len_distinct [OF distinct_variable_sets(10)] len_distinct [OF distinct_variable_sets(11)]
        len_distinct [OF distinct_variable_sets(12)] len_distinct [OF distinct_variable_sets(13)]
        len_distinct [OF distinct_variable_sets(14)] len_distinct [OF distinct_variable_sets(15)]
        len_distinct [OF distinct_variable_sets(16)] len_distinct [OF distinct_variable_sets(17)]
        len_distinct [OF distinct_greybox_block_set]
        len_distinct [OF distinct_activated_greybox_block_set])
  have raw: "number_total_constraints h blk =
       int (length (activated_block_component_generator h blk Constraint)) +
       number_activated_greybox_equalities h blk"
    "number_activated_constraints h blk =
       int (length (filter (\<lambda>c. con_active (con_heap h c))
         (activated_block_component_generator h blk Constraint)))"
    by (simp_all add: number_total_constraints_def number_activated_constraints_def
        activated_constraints_generator_def)
  have sets: "len (total_constraints_set h blk) =
       int (card (set (activated_block_component_generator h blk Constraint)))"
    "len (activated_constraints_set h blk) =
       int (card {c \<in> set (activated_block_component_generator h blk Constraint).
                   con_active (con_heap h c)})"
    by (simp_all add: total_constraints_set_def activated_constraints_set_def
        activated_constraints_generator_def len_ComponentSet)
  have d: "distinct (activated_block_component_generator h blk Constraint) \<longrightarrow>
        number_total_constraints h blk =
          len (total_constraints_set h blk) + number_activated_greybox_equalities h blk \<and>
        number_activated_constraints h blk = len (activated_constraints_set h blk)"
    by (simp add: number_total_constraints_def number_activated_constraints_def
        total_constraints_set_def activated_constraints_set_def
        activated_constraints_generator_def ComponentSet_distinct len_def)
  from v w raw sets d show ?thesis by blast
qed

theorem counts_and_sets_witness:
  "number_total_constraints ex_store ex_unbounded_model = 2
   \<and> len (total_constraints_set ex_store ex_unbounded_model) +
       number_activated_greybox_equalities ex_store ex_unbounded_model = 2
   \<and> number_activated_constraints ex_store ex_unbounded_model =
       len (activated_constraints_set ex_store ex_unbounded_model)"
proof -
  note rule = counts_and_sets [of ex_store ex_unbounded_model]
  have s: "activated_block_component_generator ex_store ex_unbounded_model Constraint = [1, 4]"
    by code_simp
  have g: "number_activated_greybox_equalities ex_store ex_unbounded_model = 0"
    by code_simp
  have d: "distinct (activated_block_component_generator ex_store ex_unbounded_model Constraint)"
    by (simp add: s)
  from rule d have
    "number_total_constraints ex_store ex_unbounded_model =
       int (length (activated_block_component_generator ex_store ex_unbounded_model Constraint)) +
       number_activated_greybox_equalities ex_store ex_unbounded_model"
    and "number_total_constraints ex_store ex_unbounded_model =
          len (total_constraints_set ex_store ex_unbounded_model) +
          number_activated_greybox_equalities ex_store ex_unbounded_model"
    and "number_activated_constraints ex_store ex_unbounded_model =
          len (activated_constraints_set ex_store ex_unbounded_model)"
    by blast+
  then show ?thesis by (simp add: s g)
qed

text \<open>
  The claim as stated fails on a model that reaches a constraint twice: the counts are 2,
  the sets have one element.
\<close>

theorem counts_and_sets_counterexample:
  "number_total_constraints ex_store ex_reference_model = 2
   \<and> len (total_constraints_set ex_store ex_reference_model) +
       number_activated_greybox_equalities ex_store ex_reference_model = 1
   \<and> number_activated_constraints ex_store ex_reference_model = 2
   \<and> len (activated_constraints_set ex_store ex_reference_model) = 1"
  by code_simp

section \<open>Facts about activated and deactivated sets\<close>

lemma tree_iterator_activated_subset:
  "set (tree_iterator (Some True) b) \<subseteq> set (tree_iterator None b)"
  by (induction b) (auto simp: passes_def)

lemma block_walk_activated_subset:
  "set (iter_indexed_block_data_objects h blk Block (Some True) True) \<subseteq>
   set (iter_indexed_block_data_objects h blk Block None True)"
proof -
  have "set (component_data_objects h Block (Some True) True b) \<subseteq>
        set (component_data_objects h Block None True b)" for b
    using tree_iterator_activated_subset [of b]
    by (auto simp: component_data_objects_def block_data_objects_def
        component_data_itervalues_def passes_def)
  then show ?thesis by (cases blk) auto
qed

lemma blocks_partition:
  "set (deactivated_blocks_set h blk) \<union> set (activated_blocks_set h blk) =
     set (total_blocks_set h blk)
   \<and> set (deactivated_blocks_set h blk) \<inter> set (activated_blocks_set h blk) = {}"
  using block_walk_activated_subset [of h blk]
  by (auto simp: deactivated_blocks_set_def set_difference activated_blocks_set_def
      total_blocks_set_def set_ComponentSet_add set_foldl_add set_ComponentSet)

lemma greybox_blocks_partition:
  "set (deactivated_greybox_block_set h blk) \<union> set (activated_greybox_block_set h blk) =
     set (greybox_block_set h blk)
   \<and> set (deactivated_greybox_block_set h blk) \<inter> set (activated_greybox_block_set h blk) = {}"
  by (auto simp: deactivated_greybox_block_set_def set_difference
      activated_greybox_block_set_def set_ComponentSet)

lemma constraints_partition:
  "set (deactivated_constraints_set h blk) \<union> set (activated_constraints_set h blk) =
     set (total_constraints_set h blk)
   \<and> set (deactivated_constraints_set h blk) \<inter> set (activated_constraints_set h blk) = {}"
  by (auto simp: deactivated_constraints_set_def activated_constraints_set_def
      total_constraints_set_def set_ComponentSet deactivated_constraints_generator_def
      activated_constraints_generator_def)

lemma objectives_partition:
  "set (deactivated_objectives_set h blk) \<union> set (activated_objectives_set h blk) =
     set (total_objectives_set h blk)
   \<and> set (deactivated_objectives_set h blk) \<inter> set (activated_objectives_set h blk) = {}"
  by (auto simp: deactivated_objectives_set_def activated_objectives_set_def
      total_objectives_set_def set_ComponentSet deactivated_objectives_generator_def
      activated_objectives_generator_def total_objectives_generator_def)

section \<open>Facts about the activated walk\<close>

lemma block_data_objects_descend: "block_data_objects act True b = tree_iterator act b"
  by (cases b) (simp add: block_data_objects_def)

lemma set_block_walk:
  "set (component_data_objects h Block (Some True) True y) =
   (\<Union>z\<in>set (tree_iterator (Some True) y). {w \<in> set (sub_blocks z). block_active w})"
  by (simp add: component_data_objects_def block_data_objects_descend
      component_data_itervalues_def Block_def passes_def)

lemma tree_iterator_inactive: "\<not> block_active x \<Longrightarrow> tree_iterator (Some True) x = []"
  by (cases x) (simp add: passes_def)

text \<open>
  The activated walk from an active block visits the block itself and the sub-blocks the
  activated walk for blocks yields.
\<close>

lemma set_tree_iterator_active:
  "block_active b \<Longrightarrow>
   set (tree_iterator (Some True) b) =
   insert b (set (component_data_objects h Block (Some True) True b))"
proof (induction b)
  case (BlockData i a vs cs os gs bs)
  let ?b = "BlockData i a vs cs os gs bs"
  let ?A = "\<lambda>x. set (tree_iterator (Some True) x)"
  let ?C = "\<lambda>x. set (component_data_objects h Block (Some True) True x)"
  let ?act = "{x \<in> set bs. block_active x}"
  from BlockData.prems have a: "a" by simp
  have A: "?A ?b = insert ?b (\<Union>x\<in>set bs. ?A x)"
    using a by (simp add: passes_def)
  have on: "?A x = insert x (?C x)" if "x \<in> ?act" for x
    by (rule BlockData.IH) (use that in simp_all)
  have off: "?A x = {}" if "x \<in> set bs" "\<not> block_active x" for x
    using that by (simp add: tree_iterator_inactive)
  have offC: "?C x = {}" if "x \<in> set bs" "\<not> block_active x" for x
    using off [OF that] by (simp add: set_block_walk)
  have A': "(\<Union>x\<in>set bs. ?A x) = (\<Union>x\<in>?act. insert x (?C x))"
  proof (rule set_eqI)
    fix y
    show "y \<in> (\<Union>x\<in>set bs. ?A x) \<longleftrightarrow> y \<in> (\<Union>x\<in>?act. insert x (?C x))"
    proof
      assume "y \<in> (\<Union>x\<in>set bs. ?A x)"
      then obtain x where x: "x \<in> set bs" "y \<in> ?A x" by (elim UN_E)
      with off [of x] have "x \<in> ?act" by (cases "block_active x") simp_all
      with x on [of x] show "y \<in> (\<Union>x\<in>?act. insert x (?C x))" by (intro UN_I) simp_all
    next
      assume "y \<in> (\<Union>x\<in>?act. insert x (?C x))"
      then obtain x where x: "x \<in> ?act" "y \<in> insert x (?C x)" by (elim UN_E)
      with on [of x] have "x \<in> set bs" "y \<in> ?A x" by simp_all
      then show "y \<in> (\<Union>x\<in>set bs. ?A x)" by (intro UN_I)
    qed
  qed
  have rest: "(\<Union>x\<in>set bs. ?C x) = (\<Union>x\<in>?act. ?C x)"
  proof (rule set_eqI)
    fix y
    show "y \<in> (\<Union>x\<in>set bs. ?C x) \<longleftrightarrow> y \<in> (\<Union>x\<in>?act. ?C x)"
    proof
      assume "y \<in> (\<Union>x\<in>set bs. ?C x)"
      then obtain x where x: "x \<in> set bs" "y \<in> ?C x" by (elim UN_E)
      with offC [of x] have "x \<in> ?act" by (cases "block_active x") simp_all
      with x show "y \<in> (\<Union>x\<in>?act. ?C x)" by (intro UN_I)
    next
      assume "y \<in> (\<Union>x\<in>?act. ?C x)"
      then obtain x where x: "x \<in> ?act" "y \<in> ?C x" by (elim UN_E)
      then have "x \<in> set bs" by simp
      with x show "y \<in> (\<Union>x\<in>set bs. ?C x)" by (intro UN_I)
    qed
  qed
  have own: "{w \<in> set (sub_blocks ?b). block_active w} = ?act"
    by simp
  have "?C ?b = (\<Union>z\<in>?A ?b. {w \<in> set (sub_blocks z). block_active w})"
    by (rule set_block_walk)
  also have "\<dots> = (\<Union>z\<in>insert ?b (\<Union>x\<in>set bs. ?A x).
      {w \<in> set (sub_blocks z). block_active w})"
    by (simp only: A)
  also have "\<dots> = ?act \<union>
      (\<Union>x\<in>set bs. \<Union>z\<in>?A x. {w \<in> set (sub_blocks z). block_active w})"
    by (simp only: UN_insert own UN_UN_flatten)
  also have "\<dots> = ?act \<union> (\<Union>x\<in>set bs. ?C x)"
    by (simp only: set_block_walk)
  finally have C: "?C ?b = ?act \<union> (\<Union>x\<in>?act. ?C x)"
    by (simp only: rest)
  have "insert ?b (?act \<union> (\<Union>x\<in>?act. ?C x)) =
        insert ?b (\<Union>x\<in>?act. insert x (?C x))"
    by blast
  then show ?case
    by (simp only: A A' C)
qed

lemma set_objects_activated:
  "set (component_data_objects h ct (Some True) True b) =
   (\<Union>z\<in>set (tree_iterator (Some True) b). {c \<in> set (members ct z). is_active ct h c})"
  by (simp add: component_data_objects_def block_data_objects_descend
      component_data_itervalues_def passes_def)

lemma set_objects_local: "set (component_data_objects h ct None False b) = set (members ct b)"
  by (simp add: component_data_objects_def block_data_objects_def
      component_data_itervalues_def passes_def)

lemma activated_walk_of_active_data:
  assumes "block_active b"
  shows "set (component_data_objects h ct (Some True) True b) =
     {c \<in> set (members ct b) \<union>
           (\<Union>z\<in>set (component_data_objects h Block (Some True) True b). set (members ct z)).
        is_active ct h c}"
proof -
  have "set (component_data_objects h ct (Some True) True b) =
      (\<Union>z\<in>set (tree_iterator (Some True) b). {c \<in> set (members ct z). is_active ct h c})"
    by (rule set_objects_activated)
  also have "set (tree_iterator (Some True) b) =
      insert b (set (component_data_objects h Block (Some True) True b))"
    by (rule set_tree_iterator_active [OF assms])
  also have "(\<Union>z\<in>insert b (set (component_data_objects h Block (Some True) True b)).
         {c \<in> set (members ct z). is_active ct h c}) = {c \<in> set (members ct b) \<union>
           (\<Union>z\<in>set (component_data_objects h Block (Some True) True b). set (members ct z)).
        is_active ct h c}"
    by blast
  finally show ?thesis .
qed

lemma iter_block_datas:
  "iter_indexed_block_data_objects h blk ct act d =
   concat (map (component_data_objects h ct act d) (block_datas blk))"
  by (cases blk) simp_all

lemma set_generator:
  "set (activated_block_component_generator h blk ct) =
   (\<Union>b\<in>set (block_datas blk).
      set (members ct b) \<union>
      (\<Union>z\<in>set (component_data_objects h Block (Some True) True b). set (members ct z)))"
proof -
  have "set (activated_block_component_generator h blk ct) =
      (\<Union>b\<in>set (block_datas blk). set (members ct b)) \<union>
      (\<Union>b\<in>set (block_datas blk).
         \<Union>z\<in>set (component_data_objects h Block (Some True) True b). set (members ct z))"
    by (simp add: activated_block_component_generator_def iter_block_datas set_objects_local)
  also have "\<dots> = (\<Union>b\<in>set (block_datas blk).
      set (members ct b) \<union>
      (\<Union>z\<in>set (component_data_objects h Block (Some True) True b). set (members ct z)))"
    by blast
  finally show ?thesis .
qed

lemma objects_of_inactive_data:
  "\<not> block_active b \<Longrightarrow> component_data_objects h ct (Some True) True b = []"
  by (simp add: component_data_objects_def block_data_objects_descend tree_iterator_inactive)

lemma set_activated_walk:
  "set (iter_indexed_block_data_objects h blk ct (Some True) True) =
   (\<Union>b\<in>{b \<in> set (block_datas blk). block_active b}.
      {c \<in> set (members ct b) \<union>
            (\<Union>z\<in>set (component_data_objects h Block (Some True) True b). set (members ct z)).
         is_active ct h c})"
proof -
  let ?D = "\<lambda>b. set (component_data_objects h ct (Some True) True b)"
  let ?G = "\<lambda>b. {c \<in> set (members ct b) \<union>
            (\<Union>z\<in>set (component_data_objects h Block (Some True) True b). set (members ct z)).
         is_active ct h c}"
  have on: "?D b = ?G b" if "block_active b" for b
    by (rule activated_walk_of_active_data [OF that])
  have off: "?D b = {}" if "\<not> block_active b" for b
    by (simp add: objects_of_inactive_data [OF that])
  have "set (iter_indexed_block_data_objects h blk ct (Some True) True) =
      (\<Union>b\<in>set (block_datas blk). ?D b)"
    by (simp add: iter_block_datas)
  also have "\<dots> = (\<Union>b\<in>{b \<in> set (block_datas blk). block_active b}. ?D b)"
  proof (rule set_eqI)
    fix y
    show "y \<in> (\<Union>b\<in>set (block_datas blk). ?D b) \<longleftrightarrow>
          y \<in> (\<Union>b\<in>{b \<in> set (block_datas blk). block_active b}. ?D b)"
    proof
      assume "y \<in> (\<Union>b\<in>set (block_datas blk). ?D b)"
      then obtain b where b: "b \<in> set (block_datas blk)" "y \<in> ?D b" by (elim UN_E)
      with off [of b] have "block_active b" by (cases "block_active b") simp_all
      with b show "y \<in> (\<Union>b\<in>{b \<in> set (block_datas blk). block_active b}. ?D b)"
        by (intro UN_I [of b]) simp_all
    next
      assume "y \<in> (\<Union>b\<in>{b \<in> set (block_datas blk). block_active b}. ?D b)"
      then obtain b where b: "b \<in> {b \<in> set (block_datas blk). block_active b}" "y \<in> ?D b"
        by (elim UN_E)
      then have "b \<in> set (block_datas blk)" by simp
      with b show "y \<in> (\<Union>b\<in>set (block_datas blk). ?D b)" by (intro UN_I [of b])
    qed
  qed
  also have "\<dots> = (\<Union>b\<in>{b \<in> set (block_datas blk). block_active b}. ?G b)"
    by (rule SUP_cong [OF refl]) (simp only: mem_Collect_eq on)
  finally show ?thesis .
qed

lemma activated_walk_subset:
  "set (iter_indexed_block_data_objects h blk ct (Some True) True) \<subseteq>
   {c \<in> set (activated_block_component_generator h blk ct). is_active ct h c}"
  unfolding set_activated_walk set_generator by blast

lemma activated_walk_of_active_block:
  assumes "\<forall>b\<in>set (block_datas blk). block_active b"
  shows "set (iter_indexed_block_data_objects h blk ct (Some True) True) =
         {c \<in> set (activated_block_component_generator h blk ct). is_active ct h c}"
proof -
  from assms have "{b \<in> set (block_datas blk). block_active b} = set (block_datas blk)"
    by blast
  then show ?thesis
    unfolding set_activated_walk set_generator by blast
qed

lemma is_active_Constraint: "is_active Constraint h c = con_active (con_heap h c)"
  by (simp add: Constraint_def)

lemma activated_constraints_walk_subset:
  "set (iter_indexed_block_data_objects h blk Constraint (Some True) True) \<subseteq>
   {c \<in> set (activated_block_component_generator h blk Constraint). con_active (con_heap h c)}"
  using activated_walk_subset [of h blk Constraint] by (simp only: is_active_Constraint)

lemma activated_constraints_walk_active:
  "\<forall>b\<in>set (block_datas blk). block_active b \<Longrightarrow>
   set (iter_indexed_block_data_objects h blk Constraint (Some True) True) =
   {c \<in> set (activated_block_component_generator h blk Constraint). con_active (con_heap h c)}"
  using activated_walk_of_active_block [of blk h Constraint] by (simp only: is_active_Constraint)

lemma set_activated_equalities_set:
  "set (activated_equalities_set h blk) =
   {c \<in> set (iter_indexed_block_data_objects h blk Constraint (Some True) True).
      spec_equality (con_heap h c)}"
  by (simp add: activated_equalities_set_def set_ComponentSet classification_of_streams(1))

lemma equalities_sets_Inr:
  assumes "total_equalities_set h blk = Inr t"
  shows "set t = {c \<in> set (activated_block_component_generator h blk Constraint).
                    spec_equality (con_heap h c)}"
    and "\<exists>d. deactivated_equalities_set h blk = Inr d \<and>
           set d = {c \<in> set (activated_block_component_generator h blk Constraint).
                      spec_equality (con_heap h c) \<and> \<not> con_active (con_heap h c)}"
proof -
  from assms obtain cs where cs: "total_equalities_generator h blk = Inr cs"
    and t: "t = ComponentSet cs"
    by (auto simp: total_equalities_set_def split: sum.splits)
  note eq = total_equalities_generator_Inr [OF cs]
  show "set t = {c \<in> set (activated_block_component_generator h blk Constraint).
                    spec_equality (con_heap h c)}"
    unfolding t set_ComponentSet by (subst eq) auto
  have "deactivated_equalities_set h blk =
      Inr (ComponentSet (filter (\<lambda>c. \<not> con_active (con_heap h c)) cs))"
    by (simp add: deactivated_equalities_set_def deactivated_equalities_generator_def cs)
  moreover have "set (ComponentSet (filter (\<lambda>c. \<not> con_active (con_heap h c)) cs)) =
      {c \<in> set (activated_block_component_generator h blk Constraint).
         spec_equality (con_heap h c) \<and> \<not> con_active (con_heap h c)}"
    unfolding set_ComponentSet by (subst eq) auto
  ultimately show "\<exists>d. deactivated_equalities_set h blk = Inr d \<and>
           set d = {c \<in> set (activated_block_component_generator h blk Constraint).
                      spec_equality (con_heap h c) \<and> \<not> con_active (con_heap h c)}"
    by blast
qed

lemma equalities_disjoint:
  assumes "total_equalities_set h blk = Inr t" and "deactivated_equalities_set h blk = Inr d"
  shows "set d \<inter> set (activated_equalities_set h blk) = {}
   \<and> set d \<union> set (activated_equalities_set h blk) \<subseteq> set t"
  using equalities_sets_Inr [OF assms(1)] assms(2) activated_constraints_walk_subset [of h blk]
  by (auto simp: set_activated_equalities_set)

lemma equalities_partition_of_active_block:
  assumes "\<forall>b\<in>set (block_datas blk). block_active b"
    and "total_equalities_set h blk = Inr t" and "deactivated_equalities_set h blk = Inr d"
  shows "set d \<union> set (activated_equalities_set h blk) = set t"
  using equalities_sets_Inr [OF assms(2)] assms(3)
    activated_constraints_walk_active [OF assms(1), of h]
  by (auto simp: set_activated_equalities_set)

lemma inequalities_disjoint:
  "set (deactivated_inequalities_set h blk) \<inter> set (activated_inequalities_set h blk) = {}
   \<and> set (deactivated_inequalities_set h blk) \<union> set (activated_inequalities_set h blk) \<subseteq>
       set (total_inequalities_set h blk)"
  using activated_constraints_walk_subset [of h blk]
  by (auto simp: deactivated_inequalities_set_def activated_inequalities_set_def
      total_inequalities_set_def set_ComponentSet deactivated_inequalities_generator_def
      activated_inequalities_generator_def total_inequalities_generator_def)

lemma inequalities_partition_of_active_block:
  assumes "\<forall>b\<in>set (block_datas blk). block_active b"
  shows "set (deactivated_inequalities_set h blk) \<union> set (activated_inequalities_set h blk) =
         set (total_inequalities_set h blk)"
  using activated_constraints_walk_active [OF assms, of h]
  by (auto simp: deactivated_inequalities_set_def activated_inequalities_set_def
      total_inequalities_set_def set_ComponentSet deactivated_inequalities_generator_def
      activated_inequalities_generator_def total_inequalities_generator_def)

section \<open>Activated and deactivated sets\<close>

text \<open>
  Claim C2 at a deactivated block that holds an active equality and an active inequality.
  Both are in the total sets, and in the activated constraint set; neither the activated
  nor the deactivated equality and inequality sets hold them.
\<close>

theorem equalities_of_deactivated_block:
  "total_equalities_set ex_store ex_deactivated_model = Inr [1]
   \<and> activated_equalities_set ex_store ex_deactivated_model = []
   \<and> deactivated_equalities_set ex_store ex_deactivated_model = Inr []
   \<and> total_inequalities_set ex_store ex_deactivated_model = [2]
   \<and> activated_inequalities_set ex_store ex_deactivated_model = []
   \<and> deactivated_inequalities_set ex_store ex_deactivated_model = []
   \<and> activated_constraints_set ex_store ex_deactivated_model = [1, 2]"
  by code_simp

section \<open>Facts about fixed and unfixed variables\<close>

lemma set_fixed_variables_set:
  "set (fixed_variables_set h blk) = {v \<in> set (variables_set h blk). fixed (var_heap h v)}"
  by (auto simp: fixed_variables_set_def fixed_variables_generator_def variables_set_def
      set_ComponentSet)

lemma set_unfixed_variables_set:
  "set (unfixed_variables_set h blk) =
   {v \<in> set (iter_indexed_block_data_objects h blk Var (Some True) True).
      \<not> fixed (var_heap h v)}"
  by (auto simp: unfixed_variables_set_def unfixed_variables_generator_def set_ComponentSet)

section \<open>Fixed and unfixed variables\<close>

text \<open>
  Claim C8 at the model with a grey-box block. The free variables 4, 5 and 6 of the
  grey-box block are variables of the model; the unfixed-variables set, which reads the
  variable walk only, misses them.
\<close>

theorem unfixed_greybox_variables_missed:
  "variables_set ex_store ex_greybox_model = [1, 2, 3, 4, 5, 6]
   \<and> fixed_variables_set ex_store ex_greybox_model = [2]
   \<and> unfixed_variables_set ex_store ex_greybox_model = [1, 3]
   \<and> filter (\<lambda>v. \<not> fixed (var_heap ex_store v)) (variables_set ex_store ex_greybox_model) =
       [1, 3, 4, 5, 6]"
  by code_simp

section \<open>Facts about the activated blocks\<close>












lemma local_greyboxes_of_active_block:
  assumes "\<forall>b\<in>set (block_datas blk). block_active b"
  shows "local_activated_greyboxes h blk \<subseteq> spec_activated_greyboxes h blk"
  using assms
  by (auto simp: local_activated_greyboxes_def spec_activated_greyboxes_def
      spec_activated_blocks_def)


section \<open>Degrees of freedom\<close>



end
